theory Spec2Isabelle
  imports Main "HOL-Library.AList"
begin

section \<open>JavaScript values\<close>

text \<open>
  A value thrown in JavaScript. \<open>Error m\<close> is an instance of \<open>Error\<close> with message \<open>m\<close>
  (as created by \<open>new Error(m)\<close>, or raised by the transport layer or by \<open>JSON.parse\<close>);
  \<open>TypeError m\<close> is the engine's own error for reading a property of \<open>undefined\<close> (also an
  instance of \<open>Error\<close>); \<open>Undefined\<close> is the value \<open>undefined\<close>, which is what a \<open>let\<close>
  without initialiser holds; \<open>NonError v\<close> is any other thrown value that is not an instance
  of \<open>Error\<close>.
\<close>

datatype thrown = Error string | TypeError string | Undefined | NonError string

text \<open>
  How an awaited promise ends: it resolves to a value, it rejects with a thrown value (and
  the \<open>await\<close> throws it), or it never settles (and the \<open>await\<close> never returns).
\<close>

datatype 'a outcome = Resolved 'a | Rejected thrown | Pending

text \<open>The scalar values that are stored in span tags and in log entries.\<close>

datatype jsvalue = JString string | JNumber int | JBool bool

text \<open>
  A string or a text is truthy when it is defined and not empty; \<open>a || b\<close> on strings takes \<open>b\<close>
  when \<open>a\<close> is not truthy.
\<close>

fun truthy :: "'a list option \<Rightarrow> bool" where
  "truthy None = False"
| "truthy (Some s) = (s \<noteq> [])"

fun or_default :: "string option \<Rightarrow> string \<Rightarrow> string" where
  "or_default None d = d"
| "or_default (Some s) d = (if s = [] then d else s)"

text \<open>
  An object literal with string keys is a list of key-value pairs in insertion order.
  Spreading \<open>...extra\<close> into an object assigns each key of \<open>extra\<close> in turn: a key that is
  already there keeps its place and takes the new value, a new key goes to the end.
\<close>

definition spread :: "(string \<times> jsvalue) list \<Rightarrow> (string \<times> jsvalue) list \<Rightarrow> (string \<times> jsvalue) list" where
  "spread obj extra = fold (\<lambda>(k, v). AList.update k v) extra obj"

text \<open>
  Rendering of an integral number inside a template literal (the numbers of these modules
  are millisecond clock readings and their differences, attempt counts and status codes):
  the decimal digits, most significant first, after a minus sign for a negative number.
  The numbers are below \<open>10\<^sup>2\<^sup>1\<close> in magnitude, where JavaScript changes to the
  exponent notation.
\<close>

definition digit_char :: "nat \<Rightarrow> char" where
  "digit_char d = ''0123456789'' ! d"

function decimal :: "nat \<Rightarrow> string \<Rightarrow> string" where
  "decimal n less_significant =
     (if n < 10 then digit_char n # less_significant
      else decimal (n div 10) (digit_char (n mod 10) # less_significant))"
  by pat_completeness auto
termination
  by (relation "measure (\<lambda>(n, less_significant). n)") auto

declare decimal.simps [simp del]

definition number_string :: "int \<Rightarrow> string" where
  "number_string i = (if i < 0 then CHR ''-'' # decimal (nat (- i)) [] else decimal (nat i) [])"

text \<open>
  A \<open>char\<close> of a \<open>string\<close> stands for one UTF-16 code unit below 256. The texts that come
  from the answer of the remote model, to which the code applies \<open>trim\<close>, are sequences of
  arbitrary code units: a code unit is a number, and \<open>units\<close> makes a text of a string.
\<close>

type_synonym text16 = "nat list"

definition units :: "string \<Rightarrow> text16" where
  "units s = map of_char s"

text \<open>
  \<open>String.prototype.trim\<close> removes white space and line terminators from both ends: tab,
  line feed, vertical tab, form feed, carriage return, space, no-break space, the Ogham
  space mark, the spaces U+2000 to U+200A, the line and the paragraph separator, the
  narrow no-break space, the medium mathematical space, the ideographic space and the
  byte order mark.
\<close>

definition is_whitespace :: "nat \<Rightarrow> bool" where
  "is_whitespace u =
     ((0x09 \<le> u \<and> u \<le> 0x0D) \<or> u = 0x20 \<or> u = 0xA0 \<or> u = 0x1680 \<or>
      (0x2000 \<le> u \<and> u \<le> 0x200A) \<or> u = 0x2028 \<or> u = 0x2029 \<or> u = 0x202F \<or>
      u = 0x205F \<or> u = 0x3000 \<or> u = 0xFEFF)"

definition trim :: "text16 \<Rightarrow> text16" where
  "trim s = rev (dropWhile is_whitespace (rev (dropWhile is_whitespace s)))"

section \<open>Data of geminiService.ts\<close>

record ImageData =
  data :: string
  mimeType :: string

record Region =
  description :: text16

record PoseData =
  head :: Region
  torso :: Region
  leftArm :: Region
  rightArm :: Region
  leftLeg :: Region
  rightLeg :: Region
  overall :: Region

text \<open>\<open>GenerationResult\<close>: an optional field that is absent is \<open>None\<close>.\<close>

record GenerationResult =
  success :: bool
  generatedImage :: "string option"
  poseDescription :: "text16 option"
  poseData :: "PoseData option"
  error :: "string option"

text \<open>\<open>CONFIG\<close> of geminiService.ts.\<close>

definition POSE_ANALYSIS_MODEL :: string where
  "POSE_ANALYSIS_MODEL = ''gemini-2.5-flash''"

definition IMAGE_GENERATION_MODEL :: string where
  "IMAGE_GENERATION_MODEL = ''gemini-3-pro-image-preview''"

definition MAX_RETRIES :: int where
  "MAX_RETRIES = 3"

definition RETRY_DELAY_MS :: int where
  "RETRY_DELAY_MS = 2000"

text \<open>
  What is sent to \<open>ai.models.generateContent\<close>. The two instruction texts are fixed apart
  from the pose description and the pose data that the second one interpolates, so a prompt
  is represented by which of the two it is and by what it interpolates.
\<close>

datatype prompt = AnalysisPrompt | ImagePrompt text16 PoseData

datatype request_part = TextPart prompt | InlineDataPart ImageData

datatype request_config = JsonSchemaResponse | ImageModality

record genai_request =
  request_apiKey :: string
  model :: string
  contents :: "request_part list"
  config :: request_config

text \<open>
  The fields of the response that the code reads. Every one of them is optional in the
  client library's types: \<open>response.text\<close>, \<open>response.candidates\<close>, \<open>candidate.content\<close>,
  \<open>content.parts\<close>, \<open>part.inlineData\<close> and \<open>inlineData.data\<close>.
\<close>

record InlineData =
  inline_data :: "string option"

record Part =
  inlineData :: "InlineData option"

record Content =
  parts :: "Part list option"

record Candidate =
  content :: "Content option"

record GenerateContentResponse =
  response_text :: "text16 option"
  candidates :: "Candidate list option"

section \<open>Data of datadogApi.ts and of the tracer\<close>

datatype metric_type = Gauge | Count | Rate

datatype log_level = Info | Warning | Failure

fun level_string :: "log_level \<Rightarrow> string" where
  "level_string Info = ''info''"
| "level_string Warning = ''warn''"
| "level_string Failure = ''error''"

text \<open>
  The body of a request before \<open>JSON.stringify\<close>: the single series of a metrics payload
  (metric, type, the one point's timestamp and value, tags) or a log entry.
\<close>

datatype body =
    Series string metric_type int int "string list"
  | LogEntry "(string \<times> jsvalue) list"

record http_request =
  hostname :: string
  port :: int
  path :: string
  http_method :: string
  header_DD_API_KEY :: string
  payload :: body

text \<open>
  What becomes of an HTTPS request:
  \<^item> \<open>Throws e\<close>: \<open>https.request\<close> throws \<open>e\<close> while it makes the request (it refuses a header
    value with an illegal character, for one), so no request is made;
  \<^item> \<open>RequestError m\<close>: the request is made and emits \<open>error\<close> with an error of message \<open>m\<close>;
  \<^item> \<open>Response s b\<close>: the response arrives and ends, with status code \<open>s\<close> and body \<open>b\<close>;
  \<^item> \<open>Truncated\<close>: the response begins and the connection is lost before it ends; the
    request emits no \<open>error\<close> and the response no \<open>end\<close>.
\<close>

datatype http_result = Throws thrown | RequestError string | Response int string | Truncated

text \<open>
  A request is answered when one of the two handlers that the code installs runs for it:
  the response ends, or the request emits \<open>error\<close>.
\<close>

fun answered :: "http_result \<Rightarrow> bool" where
  "answered (Response statusCode body') = True"
| "answered (RequestError message) = True"
| "answered (Throws e) = False"
| "answered Truncated = False"

text \<open>
  A request that has been made and has not ended yet, with what its handlers need when it
  ends: the name and the value of the metric, or the message of the log.
\<close>

datatype flight = MetricFlight string int http_request | LogFlight string http_request

text \<open>The three console methods the sources use.\<close>

datatype level = Log | Warn | Err

text \<open>
  What the code does to the outside world, in the order it does it:
  \<^item> \<open>Invoke name k\<close>: \<open>retryOperation\<close> calls \<open>operation(k)\<close> on behalf of \<open>operationName = name\<close>;
  \<^item> \<open>Wait d\<close>: a \<open>setTimeout\<close> of \<open>d\<close> milliseconds is awaited;
  \<^item> \<open>Console l text obj\<close>: a line written with \<open>console.log\<close>, \<open>console.warn\<close> or
    \<open>console.error\<close> (\<open>obj\<close> is the thrown value passed as a second argument, if any);
  \<^item> \<open>RecordSuccess\<close>, \<open>RecordError m\<close>: the methods of \<open>LLMMetrics\<close> are called;
  \<^item> \<open>SendMetric\<close>, \<open>SendLog\<close>: \<open>sendMetric\<close> and \<open>sendLog\<close> are called with these arguments;
  \<^item> \<open>HttpRequest r\<close>: \<open>https.request\<close> is issued, written and ended.
\<close>

datatype event =
    Invoke string int
  | Wait int
  | Console level string "thrown option"
  | RecordSuccess
  | RecordError string
  | SendMetric string int "string list" metric_type
  | SendLog string log_level "(string \<times> jsvalue) list"
  | HttpRequest http_request

text \<open>
  A span of the tracer: its name, its parent, its tags in the order they were first set,
  and how many times \<open>finish\<close> was called on it. A span is referred to by its position in
  the tracer's list of spans.
\<close>

record span =
  span_name :: string
  childOf :: "nat option"
  tags :: "(string \<times> jsvalue) list"
  finish_count :: nat

text \<open>
  The state that one call of the pipeline reads and changes: how many times the clock has
  been read, the spans of the tracer, the effects so far, and the requests in flight, oldest
  first.
\<close>

record world =
  ticks :: nat
  spans :: "span list"
  events :: "event list"
  in_flight :: "flight list"

definition initial_world :: world where
  "initial_world = \<lparr>ticks = 0, spans = [], events = [], in_flight = []\<rparr>"

text \<open>
  What the code cannot decide by itself: the process environment variables, the successive
  readings of \<open>Date.now()\<close>, what becomes of each HTTPS request, what the remote model
  answers to each attempt of a request, and what \<open>JSON.parse\<close> followed by the reads of the
  seven descriptions makes of a text (\<open>Inl\<close> when it throws).
\<close>

record environment =
  process_env :: "string \<Rightarrow> string option"
  clock :: "nat \<Rightarrow> int"
  https_request :: "http_request \<Rightarrow> http_result"
  generateContent :: "genai_request \<Rightarrow> int \<Rightarrow> thrown + GenerateContentResponse"
  JSON_parse :: "text16 \<Rightarrow> thrown + PoseData"

definition emit :: "event list \<Rightarrow> world \<Rightarrow> world" where
  "emit es w = w\<lparr>events := events w @ es\<rparr>"

definition console :: "level \<Rightarrow> string \<Rightarrow> world \<Rightarrow> world" where
  "console l line w = emit [Console l line None] w"

definition Date_now :: "environment \<Rightarrow> world \<Rightarrow> int \<times> world" where
  "Date_now env w = (clock env (ticks w), w\<lparr>ticks := Suc (ticks w)\<rparr>)"

section \<open>datadog.ts: the tracer and its helpers\<close>

text \<open>
  \<open>tracer.startSpan(name, {childOf, tags})\<close> makes a new, unfinished span and returns it;
  \<open>span.setTag\<close> and \<open>span.finish\<close> change the span they are called on. The tracer library
  itself is not part of the repository: a span records what was done to it.
\<close>

definition startSpan :: "string \<Rightarrow> nat option \<Rightarrow> (string \<times> jsvalue) list \<Rightarrow> world \<Rightarrow> nat \<times> world" where
  "startSpan name parent initial_tags w =
     (length (spans w),
      w\<lparr>spans := spans w @
           [\<lparr>span_name = name, childOf = parent, tags = initial_tags, finish_count = 0\<rparr>]\<rparr>)"

definition setTag :: "nat \<Rightarrow> string \<Rightarrow> jsvalue \<Rightarrow> world \<Rightarrow> world" where
  "setTag sp key v w =
     (if sp < length (spans w)
      then w\<lparr>spans := (spans w)[sp := (spans w ! sp)\<lparr>tags := AList.update key v (tags (spans w ! sp))\<rparr>]\<rparr>
      else w)"

definition finish :: "nat \<Rightarrow> world \<Rightarrow> world" where
  "finish sp w =
     (if sp < length (spans w)
      then w\<lparr>spans := (spans w)[sp := (spans w ! sp)\<lparr>finish_count := Suc (finish_count (spans w ! sp))\<rparr>]\<rparr>
      else w)"

text \<open>\<open>datadogHelper.startLLMSpan\<close> and \<open>datadogHelper.recordGeneration\<close>.\<close>

definition startLLMSpan :: "string \<Rightarrow> string \<Rightarrow> world \<Rightarrow> nat \<times> world" where
  "startLLMSpan operationName modelName w =
     (let w = console Log (''[Datadog] Creating span: llm.'' @ operationName @ '', model: '' @ modelName) w
      in startSpan (''llm.'' @ operationName) None
           [(''llm.provider'', JString ''google''),
            (''llm.model'', JString modelName),
            (''llm.request_type'', JString ''pose_transformation'')] w)"

definition recordGeneration :: "bool \<Rightarrow> int \<Rightarrow> string option \<Rightarrow> world \<Rightarrow> world" where
  "recordGeneration succeeded latencyMs errorType w =
     (let status = (if succeeded then ''success'' else ''error'')
      in console Log (''[Datadog] Generation '' @ status @ '', latency: '' @ number_string latencyMs
           @ ''ms'' @ (case errorType of
                         None \<Rightarrow> []
                       | Some t \<Rightarrow> if t \<noteq> [] then '', error: '' @ t else [])) w)"

section \<open>datadogApi.ts: metrics and logs over HTTPS\<close>

text \<open>The configuration that the module reads from the environment when it is loaded.\<close>

definition DD_API_KEY :: "environment \<Rightarrow> string option" where
  "DD_API_KEY env = process_env env ''DD_API_KEY''"

definition DD_SITE :: "environment \<Rightarrow> string" where
  "DD_SITE env = or_default (process_env env ''DD_SITE'') ''us5.datadoghq.com''"

definition DD_SERVICE :: "environment \<Rightarrow> string" where
  "DD_SERVICE env = or_default (process_env env ''DD_SERVICE'') ''poseshift-ai''"

definition DD_ENV :: "environment \<Rightarrow> string" where
  "DD_ENV env = or_default (process_env env ''DD_ENV'') ''prod''"

text \<open>
  The request that \<open>sendMetric\<close> builds (\<open>options\<close> and \<open>payload\<close>) from its arguments and
  from the clock reading \<open>now\<close>. The \<open>Content-Length\<close> header and the serialisation of the
  payload are left out.
\<close>

definition metric_request ::
  "environment \<Rightarrow> string \<Rightarrow> int \<Rightarrow> string list \<Rightarrow> metric_type \<Rightarrow> int \<Rightarrow> http_request" where
  "metric_request env metricName val tags' metricType now =
     (let timestamp = now div 1000;
          allTags = [''service:'' @ DD_SERVICE env, ''env:'' @ DD_ENV env] @ tags'
      in \<lparr>hostname = ''api.'' @ DD_SITE env, port = 443, path = ''/api/v1/series'',
          http_method = ''POST'', header_DD_API_KEY = the (DD_API_KEY env),
          payload = Series metricName metricType timestamp val allTags\<rparr>)"

text \<open>
  What a call of \<open>sendMetric\<close> or \<open>sendLog\<close> has done when it hands back its promise:
  \<^item> \<open>Skipped\<close>: there is no API key, the function has returned, the promise is resolved;
  \<^item> \<open>Threw e\<close>: \<open>https.request\<close> threw \<open>e\<close> inside the executor of \<open>new Promise\<close>, so the
    promise is rejected with \<open>e\<close>;
  \<^item> \<open>InFlight f\<close>: the request has been made, written and ended; the promise is pending
    until a handler settles it.
\<close>

datatype started = Skipped | Threw thrown | InFlight flight

text \<open>
  \<open>sendMetric\<close> up to the return of its promise: the statements of the function and of the
  executor.
\<close>

definition sendMetric_call ::
  "environment \<Rightarrow> string \<Rightarrow> int \<Rightarrow> string list \<Rightarrow> metric_type \<Rightarrow> world \<Rightarrow> started \<times> world" where
  "sendMetric_call env metricName val tags' metricType w =
     (let w = emit [SendMetric metricName val tags' metricType] w
      in if \<not> truthy (DD_API_KEY env)
         then (Skipped, console Log ''[Datadog API] No API key, skipping metric'' w)
         else
           (let (now, w) = Date_now env w;
                request = metric_request env metricName val tags' metricType now
            in case https_request env request of
                 Throws e \<Rightarrow> (Threw e, w)
               | _ \<Rightarrow> (InFlight (MetricFlight metricName val request),
                        emit [HttpRequest request] w)))"

text \<open>
  The handlers of \<open>sendMetric\<close>, when the request ends: the one of the response's \<open>end\<close>
  and the one of the request's \<open>error\<close>. Both call \<open>resolve\<close>; \<open>reject\<close> is never called.
  No handler runs for a truncated response, and the promise stays pending. (The last case
  does not arise: a request for which \<open>https.request\<close> threw was never made.)
\<close>

definition metric_handlers ::
  "environment \<Rightarrow> string \<Rightarrow> int \<Rightarrow> http_request \<Rightarrow> world \<Rightarrow> unit outcome \<times> world" where
  "metric_handlers env metricName val request w =
     (case https_request env request of
        Response statusCode body' \<Rightarrow>
          (if statusCode = 202
           then (Resolved (), console Log (''[Datadog API] Metric sent: '' @ metricName @ '' = ''
                                 @ number_string val) w)
           else (Resolved (), console Err (''[Datadog API] Error: '' @ number_string statusCode
                                 @ '' - '' @ body') w))
      | RequestError message \<Rightarrow>
          (Resolved (), console Err (''[Datadog API] Request error: '' @ message) w)
      | Truncated \<Rightarrow> (Pending, w)
      | Throws e \<Rightarrow> (Pending, w))"

text \<open>
  The request that \<open>sendLog\<close> builds. The log entry is an object literal that ends with
  \<open>...additionalData\<close>, so a \<open>status\<close> key of the additional data replaces the level.
\<close>

definition log_request ::
  "environment \<Rightarrow> string \<Rightarrow> log_level \<Rightarrow> (string \<times> jsvalue) list \<Rightarrow> http_request" where
  "log_request env msg lvl additionalData =
     (let logEntry = spread
            [(''ddsource'', JString ''nodejs''),
             (''ddtags'', JString (''env:'' @ DD_ENV env @ '',service:'' @ DD_SERVICE env)),
             (''hostname'', JString ''firebase-functions''),
             (''message'', JString msg),
             (''service'', JString (DD_SERVICE env)),
             (''status'', JString (level_string lvl))]
            additionalData
      in \<lparr>hostname = ''http-intake.logs.'' @ DD_SITE env, port = 443, path = ''/api/v2/logs'',
          http_method = ''POST'', header_DD_API_KEY = the (DD_API_KEY env),
          payload = LogEntry logEntry\<rparr>)"

text \<open>\<open>sendLog\<close> up to the return of its promise, and its handlers.\<close>

definition sendLog_call ::
  "environment \<Rightarrow> string \<Rightarrow> log_level \<Rightarrow> (string \<times> jsvalue) list \<Rightarrow> world \<Rightarrow> started \<times> world" where
  "sendLog_call env msg lvl additionalData w =
     (let w = emit [SendLog msg lvl additionalData] w
      in if \<not> truthy (DD_API_KEY env)
         then (Skipped, console Log ''[Datadog API] No API key, skipping log'' w)
         else
           (let request = log_request env msg lvl additionalData
            in case https_request env request of
                 Throws e \<Rightarrow> (Threw e, w)
               | _ \<Rightarrow> (InFlight (LogFlight msg request), emit [HttpRequest request] w)))"

definition log_handlers ::
  "environment \<Rightarrow> string \<Rightarrow> http_request \<Rightarrow> world \<Rightarrow> unit outcome \<times> world" where
  "log_handlers env msg request w =
     (case https_request env request of
        Response statusCode body' \<Rightarrow>
          (if statusCode = 200 \<or> statusCode = 202
           then (Resolved (), console Log (''[Datadog API] Log sent: '' @ take 50 msg @ ''...'') w)
           else (Resolved (), console Err (''[Datadog API] Log error: '' @ number_string statusCode
                                 @ '' - '' @ body') w))
      | RequestError message \<Rightarrow>
          (Resolved (), console Err (''[Datadog API] Log request error: '' @ message) w)
      | Truncated \<Rightarrow> (Pending, w)
      | Throws e \<Rightarrow> (Pending, w))"

text \<open>The end of a request in flight: its handlers run and its promise settles, or not.\<close>

fun handlers :: "environment \<Rightarrow> flight \<Rightarrow> world \<Rightarrow> unit outcome \<times> world" where
  "handlers env (MetricFlight metricName val request) w = metric_handlers env metricName val request w"
| "handlers env (LogFlight msg request) w = log_handlers env msg request w"

text \<open>
  The code does not fix the order in which requests end; here they end in the order in
  which they were made, which bears on the order of the console lines and on nothing else.
  \<open>handle_all\<close> lets the given requests end, in order, and gives the outcomes of their
  promises; \<open>drain\<close> lets every request that is still in flight from before end.
\<close>

fun handle_all :: "environment \<Rightarrow> flight list \<Rightarrow> world \<Rightarrow> unit outcome list \<times> world" where
  "handle_all env [] w = ([], w)"
| "handle_all env (f # fs) w =
     (let (p, w) = handlers env f w;
          (ps, w) = handle_all env fs w
      in (p # ps, w))"

definition drain :: "environment \<Rightarrow> world \<Rightarrow> world" where
  "drain env w = snd (handle_all env (in_flight w) (w\<lparr>in_flight := []\<rparr>))"

text \<open>
  \<open>Promise.all\<close> on the outcomes of its promises: it rejects when one of them rejects,
  otherwise it stays pending when one of them does, otherwise it resolves.
\<close>

fun Promise_all :: "unit outcome list \<Rightarrow> unit outcome" where
  "Promise_all [] = Resolved ()"
| "Promise_all (Rejected e # ps) = Rejected e"
| "Promise_all (Resolved u # ps) = Promise_all ps"
| "Promise_all (Pending # ps) = (case Promise_all ps of Rejected e \<Rightarrow> Rejected e | p \<Rightarrow> Pending)"

fun outcome_when_started :: "started \<Rightarrow> unit outcome" where
  "outcome_when_started Skipped = Resolved ()"
| "outcome_when_started (Threw e) = Rejected e"
| "outcome_when_started (InFlight f) = Pending"

fun flights :: "started list \<Rightarrow> flight list" where
  "flights [] = []"
| "flights (InFlight f # ss) = f # flights ss"
| "flights (s # ss) = flights ss"

text \<open>
  \<open>await Promise.all(sends)\<close>, after every send of the list has been called. If a promise
  is rejected already, the \<open>await\<close> throws at once and the requests that were made stay in
  flight. If every promise is resolved already, the \<open>await\<close> returns at once. Otherwise the
  requests end, the older ones first, and the \<open>await\<close> returns when every promise has
  resolved.
\<close>

definition await_all :: "environment \<Rightarrow> started list \<Rightarrow> world \<Rightarrow> unit outcome \<times> world" where
  "await_all env sends w =
     (case Promise_all (map outcome_when_started sends) of
        Rejected e \<Rightarrow> (Rejected e, w\<lparr>in_flight := in_flight w @ flights sends\<rparr>)
      | Resolved u \<Rightarrow> (Resolved (), w)
      | Pending \<Rightarrow>
          (let (ps, w) = handle_all env (flights sends) (drain env w)
           in (Promise_all ps, w)))"

text \<open>\<open>await sendMetric(...)\<close> and \<open>await sendLog(...)\<close>: the call and the wait for its promise.\<close>

definition sendMetric ::
  "environment \<Rightarrow> string \<Rightarrow> int \<Rightarrow> string list \<Rightarrow> metric_type \<Rightarrow> world \<Rightarrow> unit outcome \<times> world" where
  "sendMetric env metricName val tags' metricType w =
     (let (s, w) = sendMetric_call env metricName val tags' metricType w
      in await_all env [s] w)"

definition sendLog ::
  "environment \<Rightarrow> string \<Rightarrow> log_level \<Rightarrow> (string \<times> jsvalue) list \<Rightarrow> world \<Rightarrow> unit outcome \<times> world" where
  "sendLog env msg lvl additionalData w =
     (let (s, w) = sendLog_call env msg lvl additionalData w
      in await_all env [s] w)"

text \<open>The class \<open>LLMMetrics\<close>: its three private fields, its constructor and its two methods.\<close>

record LLMMetrics =
  metrics_startTime :: int
  metrics_operationName :: string
  metrics_modelName :: string

definition new_LLMMetrics :: "environment \<Rightarrow> string \<Rightarrow> string \<Rightarrow> world \<Rightarrow> LLMMetrics \<times> world" where
  "new_LLMMetrics env operationName modelName w =
     (let (now, w) = Date_now env w
      in (\<lparr>metrics_startTime = now, metrics_operationName = operationName,
           metrics_modelName = modelName\<rparr>,
          console Log (''[LLM Metrics] Starting: '' @ operationName @ '' with '' @ modelName) w))"

text \<open>
  \<open>recordSuccess\<close> and \<open>recordError\<close>: the three sends are called one after the other, each
  up to the return of its promise, and then the three promises are awaited together.
\<close>

definition recordSuccess :: "environment \<Rightarrow> LLMMetrics \<Rightarrow> world \<Rightarrow> unit outcome \<times> world" where
  "recordSuccess env this w =
     (let w = emit [RecordSuccess] w;
          (now, w) = Date_now env w;
          latency = now - metrics_startTime this;
          (s1, w) = sendMetric_call env ''poseshift.llm.request.count'' 1
                      [''operation:'' @ metrics_operationName this,
                       ''model:'' @ metrics_modelName this,
                       ''status:success''] Count w;
          (s2, w) = sendMetric_call env ''poseshift.llm.request.latency'' latency
                      [''operation:'' @ metrics_operationName this,
                       ''model:'' @ metrics_modelName this] Gauge w;
          (s3, w) = sendLog_call env (''LLM generation completed: '' @ metrics_operationName this) Info
                      [(''operation'', JString (metrics_operationName this)),
                       (''model'', JString (metrics_modelName this)),
                       (''latency_ms'', JNumber latency),
                       (''status'', JString ''success'')] w
      in await_all env [s1, s2, s3] w)"

definition recordError :: "environment \<Rightarrow> LLMMetrics \<Rightarrow> string \<Rightarrow> world \<Rightarrow> unit outcome \<times> world" where
  "recordError env this errorMessage w =
     (let w = emit [RecordError errorMessage] w;
          (now, w) = Date_now env w;
          latency = now - metrics_startTime this;
          (s1, w) = sendMetric_call env ''poseshift.llm.request.count'' 1
                      [''operation:'' @ metrics_operationName this,
                       ''model:'' @ metrics_modelName this,
                       ''status:error''] Count w;
          (s2, w) = sendMetric_call env ''poseshift.llm.error.count'' 1
                      [''operation:'' @ metrics_operationName this,
                       ''model:'' @ metrics_modelName this] Count w;
          (s3, w) = sendLog_call env (''LLM generation failed: '' @ metrics_operationName this
                                       @ '' - '' @ errorMessage) Failure
                      [(''operation'', JString (metrics_operationName this)),
                       (''model'', JString (metrics_modelName this)),
                       (''latency_ms'', JNumber latency),
                       (''status'', JString ''error''),
                       (''error'', JString errorMessage)] w
      in await_all env [s1, s2, s3] w)"

section \<open>geminiService.ts: the retry helper\<close>

text \<open>The four console lines of \<open>retryOperation\<close>.\<close>

definition line_started :: "string \<Rightarrow> int \<Rightarrow> int \<Rightarrow> event" where
  "line_started operationName attempt maxAttempts =
     Console Log (''['' @ operationName @ ''] Attempt '' @ number_string attempt @ ''/''
       @ number_string maxAttempts @ '' started...'') None"

definition line_failed :: "string \<Rightarrow> int \<Rightarrow> thrown \<Rightarrow> event" where
  "line_failed operationName attempt err =
     Console Warn (''['' @ operationName @ ''] Attempt '' @ number_string attempt @ '' failed:'')
       (Some err)"

definition line_retrying :: "string \<Rightarrow> int \<Rightarrow> event" where
  "line_retrying operationName delayMs =
     Console Log (''['' @ operationName @ ''] Retrying in '' @ number_string delayMs @ ''ms...'') None"

definition line_all_failed :: "string \<Rightarrow> int \<Rightarrow> event" where
  "line_all_failed operationName maxAttempts =
     Console Err (''['' @ operationName @ ''] All '' @ number_string maxAttempts
       @ '' attempts failed.'') None"

text \<open>
  An operation is awaited once per attempt, so its behaviour is the outcome of each
  attempt: \<open>Inl e\<close> when the promise rejects with \<open>e\<close>, \<open>Inr v\<close> when it resolves to \<open>v\<close>.
  \<open>maxAttempts\<close> and \<open>delayMs\<close> are integral numbers.

  The \<open>for\<close> loop of \<open>retryOperation\<close>, with its two mutable variables \<open>attempt\<close> and
  \<open>lastError\<close> and the effects so far as arguments. After the loop the function logs that
  every attempt failed and throws \<open>lastError\<close>.
\<close>

function retry_loop ::
  "(int \<Rightarrow> thrown + 'a) \<Rightarrow> string \<Rightarrow> int \<Rightarrow> int \<Rightarrow> int \<Rightarrow> thrown \<Rightarrow> event list
    \<Rightarrow> (thrown + 'a) \<times> event list" where
  "retry_loop operation operationName maxAttempts delayMs attempt lastError trace =
     (if attempt \<le> maxAttempts then
        (let started =
               (if attempt > 1 then [line_started operationName attempt maxAttempts] else [])
         in case operation attempt of
              Inr v \<Rightarrow> (Inr v, trace @ started @ [Invoke operationName attempt])
            | Inl err \<Rightarrow>
                retry_loop operation operationName maxAttempts delayMs (attempt + 1) err
                  (trace @ started @
                   [Invoke operationName attempt, line_failed operationName attempt err] @
                   (if attempt < maxAttempts
                    then [line_retrying operationName delayMs, Wait delayMs]
                    else [])))
      else (Inl lastError, trace @ [line_all_failed operationName maxAttempts]))"
  by pat_completeness auto
termination
  by (relation "measure (\<lambda>(operation, operationName, maxAttempts, delayMs, attempt, lastError, trace).
        nat (maxAttempts + 1 - attempt))") auto

declare retry_loop.simps [simp del]

definition retryOperation ::
  "(int \<Rightarrow> thrown + 'a) \<Rightarrow> string \<Rightarrow> int \<Rightarrow> int \<Rightarrow> (thrown + 'a) \<times> event list" where
  "retryOperation operation operationName maxAttempts delayMs =
     retry_loop operation operationName maxAttempts delayMs 1 Undefined []"

text \<open>
  The effects of one failed attempt, as the loop adds them to the trace: the line that
  announces a retry, the call, the warning, and the delay when another attempt follows.
\<close>

definition after_failure :: "string \<Rightarrow> int \<Rightarrow> int \<Rightarrow> int \<Rightarrow> thrown \<Rightarrow> event list" where
  "after_failure operationName maxAttempts delayMs attempt err =
     (if attempt > 1 then [line_started operationName attempt maxAttempts] else []) @
     [Invoke operationName attempt, line_failed operationName attempt err] @
     (if attempt < maxAttempts then [line_retrying operationName delayMs, Wait delayMs] else [])"

section \<open>geminiService.ts: pose analysis\<close>

text \<open>The template literal of \<open>generatePoseDescription\<close> and its \<open>trim\<close>.\<close>

definition formattedDescription :: "PoseData \<Rightarrow> text16" where
  "formattedDescription pd =
     trim (units ''\<newline>- **Overall:** '' @ description (overall pd) @
           units ''\<newline>- **Head:** '' @ description (head pd) @
           units ''\<newline>- **Torso:** '' @ description (torso pd) @
           units ''\<newline>- **Arms:**'' @
           units ''\<newline>  - Left: '' @ description (leftArm pd) @
           units ''\<newline>  - Right: '' @ description (rightArm pd) @
           units ''\<newline>- **Legs:**'' @
           units ''\<newline>  - Left: '' @ description (leftLeg pd) @
           units ''\<newline>  - Right: '' @ description (rightLeg pd) @
           units ''\<newline>    '')"

definition empty_description_error :: thrown where
  "empty_description_error = Error ''Pose analysis failed. The model did not return a description.''"

definition analysis_request :: "string \<Rightarrow> ImageData \<Rightarrow> genai_request" where
  "analysis_request apiKey poseImage =
     \<lparr>request_apiKey = apiKey, model = POSE_ANALYSIS_MODEL,
      contents = [TextPart AnalysisPrompt,
                  InlineDataPart \<lparr>data = data poseImage, mimeType = mimeType poseImage\<rparr>],
      config = JsonSchemaResponse\<rparr>"

text \<open>One attempt: the function that \<open>generatePoseDescription\<close> passes to \<open>retryOperation\<close>.\<close>

definition analysis_operation ::
  "environment \<Rightarrow> string \<Rightarrow> ImageData \<Rightarrow> int \<Rightarrow> thrown + (text16 \<times> PoseData)" where
  "analysis_operation env apiKey poseImage attempt =
     (case generateContent env (analysis_request apiKey poseImage) attempt of
        Inl e \<Rightarrow> Inl e
      | Inr response \<Rightarrow>
          (if \<not> truthy (response_text response) then Inl empty_description_error
           else case JSON_parse env (trim (the (response_text response))) of
                  Inl e \<Rightarrow> Inl e
                | Inr pd \<Rightarrow> Inr (formattedDescription pd, pd)))"

definition generatePoseDescription ::
  "environment \<Rightarrow> string \<Rightarrow> ImageData \<Rightarrow> world \<Rightarrow> (thrown + (text16 \<times> PoseData)) \<times> world" where
  "generatePoseDescription env apiKey poseImage w =
     (let (r, trace) = retryOperation (analysis_operation env apiKey poseImage)
                         ''generatePoseDescription'' MAX_RETRIES RETRY_DELAY_MS
      in (r, emit trace w))"

section \<open>geminiService.ts: image generation\<close>

definition no_image_error :: thrown where
  "no_image_error = Error ''Image generation failed. The model did not return an image.''"

text \<open>
  Reading \<open>.content\<close> of \<open>response.candidates[0]\<close> when the array is empty: the element is
  \<open>undefined\<close> and the engine throws a \<open>TypeError\<close> (the text is the one of V8).
\<close>

definition undefined_content_error :: thrown where
  "undefined_content_error = TypeError ''Cannot read properties of undefined (reading 'content')''"

text \<open>The \<open>for\<close> loop over the parts: it returns the data of the first part that has some.\<close>

fun first_image :: "Part list \<Rightarrow> string option" where
  "first_image [] = None"
| "first_image (part # rest) =
     (case inlineData part of
        None \<Rightarrow> first_image rest
      | Some blob \<Rightarrow> if truthy (inline_data blob) then inline_data blob else first_image rest)"

text \<open>What one attempt makes of the response.\<close>

definition image_of_response :: "GenerateContentResponse \<Rightarrow> thrown + string" where
  "image_of_response response =
     (case candidates response of
        None \<Rightarrow> Inl no_image_error
      | Some [] \<Rightarrow> Inl undefined_content_error
      | Some (candidate # others) \<Rightarrow>
          (case content candidate of
             None \<Rightarrow> Inl no_image_error
           | Some c \<Rightarrow>
               (case parts c of
                  None \<Rightarrow> Inl no_image_error
                | Some ps \<Rightarrow>
                    (case first_image ps of
                       Some d \<Rightarrow> Inr d
                     | None \<Rightarrow> Inl no_image_error))))"

definition image_request :: "string \<Rightarrow> ImageData \<Rightarrow> ImageData \<Rightarrow> text16 \<Rightarrow> PoseData \<Rightarrow> genai_request" where
  "image_request apiKey userImage poseImage poseDescription' poseData' =
     \<lparr>request_apiKey = apiKey, model = IMAGE_GENERATION_MODEL,
      contents = [InlineDataPart \<lparr>data = data userImage, mimeType = mimeType userImage\<rparr>,
                  InlineDataPart \<lparr>data = data poseImage, mimeType = mimeType poseImage\<rparr>,
                  TextPart (ImagePrompt poseDescription' poseData')],
      config = ImageModality\<rparr>"

text \<open>One attempt: the function that \<open>generatePoseImage\<close> passes to \<open>retryOperation\<close>.\<close>

definition image_operation ::
  "environment \<Rightarrow> string \<Rightarrow> ImageData \<Rightarrow> ImageData \<Rightarrow> text16 \<Rightarrow> PoseData \<Rightarrow> int \<Rightarrow> thrown + string" where
  "image_operation env apiKey userImage poseImage poseDescription' poseData' attempt =
     (case generateContent env (image_request apiKey userImage poseImage poseDescription' poseData')
             attempt of
        Inl e \<Rightarrow> Inl e
      | Inr response \<Rightarrow> image_of_response response)"

definition generatePoseImage ::
  "environment \<Rightarrow> string \<Rightarrow> ImageData \<Rightarrow> ImageData \<Rightarrow> text16 \<Rightarrow> PoseData \<Rightarrow> world
    \<Rightarrow> (thrown + string) \<times> world" where
  "generatePoseImage env apiKey userImage poseImage poseDescription' poseData' w =
     (let (r, trace) = retryOperation
                         (image_operation env apiKey userImage poseImage poseDescription' poseData')
                         ''generatePoseImage'' MAX_RETRIES RETRY_DELAY_MS
      in (r, emit trace w))"

section \<open>geminiService.ts: the pipeline\<close>

text \<open>
  The message that the \<open>catch\<close> block takes from the value it caught:
  \<open>error instanceof Error ? error.message : 'Unknown error'\<close>.
\<close>

fun errorMessage_of :: "thrown \<Rightarrow> string" where
  "errorMessage_of (Error m) = m"
| "errorMessage_of (TypeError m) = m"
| "errorMessage_of Undefined = ''Unknown error''"
| "errorMessage_of (NonError v) = ''Unknown error''"

text \<open>
  The body of the \<open>try\<close> block of \<open>generateWithPose\<close>. It ends with the \<open>return\<close> of the
  result (\<open>Resolved\<close>), or a rejected \<open>await\<close> leaves it with the thrown value (\<open>Rejected\<close>),
  or an \<open>await\<close> never returns (\<open>Pending\<close>).
\<close>

definition try_block ::
  "environment \<Rightarrow> string \<Rightarrow> ImageData \<Rightarrow> ImageData \<Rightarrow> int \<Rightarrow> LLMMetrics \<Rightarrow> nat \<Rightarrow> world
    \<Rightarrow> GenerationResult outcome \<times> world" where
  "try_block env apiKey userImage poseImage startTime metrics parentSpan w =
     (let w = console Log ''[generateWithPose] Step 1: Analyzing pose...'' w;
          (analyzeSpan, w) = startSpan ''llm.pose_analysis'' (Some parentSpan)
                               [(''llm.model'', JString POSE_ANALYSIS_MODEL),
                                (''llm.operation'', JString ''text_generation'')] w;
          (r, w) = generatePoseDescription env apiKey poseImage w
      in case r of
           Inl e \<Rightarrow> (Rejected e, w)
         | Inr (description', poseData') \<Rightarrow>
             (let w = setTag analyzeSpan ''llm.status'' (JString ''success'') w;
                  w = finish analyzeSpan w;
                  w = console Log ''[generateWithPose] Pose analysis complete'' w;
                  w = console Log ''[generateWithPose] Step 2: Generating image...'' w;
                  (generateSpan, w) = startSpan ''llm.image_generation'' (Some parentSpan)
                                        [(''llm.model'', JString IMAGE_GENERATION_MODEL),
                                         (''llm.operation'', JString ''image_generation'')] w;
                  (r, w) = generatePoseImage env apiKey userImage poseImage description' poseData' w
              in case r of
                   Inl e \<Rightarrow> (Rejected e, w)
                 | Inr generatedImage' \<Rightarrow>
                     (let w = setTag generateSpan ''llm.status'' (JString ''success'') w;
                          w = finish generateSpan w;
                          w = console Log ''[generateWithPose] Image generation complete'' w;
                          (now, w) = Date_now env w;
                          latencyMs = now - startTime;
                          w = setTag parentSpan ''llm.status'' (JString ''success'') w;
                          w = setTag parentSpan ''llm.latency_ms'' (JNumber latencyMs) w;
                          w = recordGeneration True latencyMs None w;
                          (r, w) = recordSuccess env metrics w
                      in case r of
                           Rejected e \<Rightarrow> (Rejected e, w)
                         | Pending \<Rightarrow> (Pending, w)
                         | Resolved u \<Rightarrow>
                             (Resolved \<lparr>success = True, generatedImage = Some generatedImage',
                                        poseDescription = Some description',
                                        poseData = Some poseData', error = None\<rparr>, w))))"

text \<open>
  The \<open>catch\<close> block, entered with the value that left the \<open>try\<close> block. A rejected
  \<open>await\<close> inside it leaves the function with that value.
\<close>

definition catch_block ::
  "environment \<Rightarrow> int \<Rightarrow> LLMMetrics \<Rightarrow> nat \<Rightarrow> thrown \<Rightarrow> world
    \<Rightarrow> GenerationResult outcome \<times> world" where
  "catch_block env startTime metrics parentSpan err w =
     (let (now, w) = Date_now env w;
          latencyMs = now - startTime;
          errorMessage = errorMessage_of err;
          w = setTag parentSpan ''llm.status'' (JString ''error'') w;
          w = setTag parentSpan ''error'' (JBool True) w;
          w = setTag parentSpan ''error.message'' (JString errorMessage) w;
          w = recordGeneration False latencyMs (Some errorMessage) w;
          (r, w) = recordError env metrics errorMessage w
      in case r of
           Rejected e \<Rightarrow> (Rejected e, w)
         | Pending \<Rightarrow> (Pending, w)
         | Resolved u \<Rightarrow>
             (Resolved \<lparr>success = False, generatedImage = None, poseDescription = None,
                        poseData = None, error = Some errorMessage\<rparr>,
              emit [Console Err ''[generateWithPose] Error:'' (Some err)] w))"

text \<open>
  \<open>generateWithPose\<close>: the statements before the \<open>try\<close>, the \<open>try\<close> block, the \<open>catch\<close>
  block when the \<open>try\<close> block threw, and the \<open>finally\<close> block when control leaves the
  two. The outcome is \<open>Resolved\<close> with the returned \<open>GenerationResult\<close>, or \<open>Rejected e\<close> if
  the function itself rejects with \<open>e\<close>, or \<open>Pending\<close> if an \<open>await\<close> of the function never
  returns, and then the \<open>finally\<close> block is not reached. The world is the one the call
  leaves behind, starting from the empty one.
\<close>

definition generateWithPose ::
  "environment \<Rightarrow> string \<Rightarrow> ImageData \<Rightarrow> ImageData \<Rightarrow> GenerationResult outcome \<times> world" where
  "generateWithPose env apiKey userImage poseImage =
     (let (startTime, w) = Date_now env initial_world;
          (metrics, w) = new_LLMMetrics env ''full_generation'' ''gemini-pipeline'' w;
          (parentSpan, w) = startLLMSpan ''full_generation'' ''gemini-pipeline'' w;
          (r, w) = try_block env apiKey userImage poseImage startTime metrics parentSpan w;
          (r, w) = (case r of
                      Rejected err \<Rightarrow> catch_block env startTime metrics parentSpan err w
                    | settled \<Rightarrow> (settled, w))
      in case r of
           Pending \<Rightarrow> (Pending, w)
         | settled \<Rightarrow> (settled, finish parentSpan w))"

section \<open>Reading a trace\<close>

text \<open>The calls of the operation and the delays of a trace, without the other events.\<close>

fun is_call_or_wait :: "event \<Rightarrow> bool" where
  "is_call_or_wait (Invoke n k) = True"
| "is_call_or_wait (Wait d) = True"
| "is_call_or_wait e = False"

definition calls_and_waits :: "event list \<Rightarrow> event list" where
  "calls_and_waits trace = filter is_call_or_wait trace"

text \<open>The attempt numbers with which the operation called \<open>name\<close> was invoked, in order.\<close>

fun invocations :: "string \<Rightarrow> event list \<Rightarrow> int list" where
  "invocations name [] = []"
| "invocations name (Invoke n k # es) =
     (if n = name then k # invocations name es else invocations name es)"
| "invocations name (e # es) = invocations name es"

text \<open>The delays that were awaited, in order.\<close>

fun waits :: "event list \<Rightarrow> int list" where
  "waits [] = []"
| "waits (Wait d # es) = d # waits es"
| "waits (e # es) = waits es"

text \<open>The direct reports: the calls of \<open>recordSuccess\<close> and \<open>recordError\<close>.\<close>

fun is_report :: "event \<Rightarrow> bool" where
  "is_report RecordSuccess = True"
| "is_report (RecordError m) = True"
| "is_report e = False"

definition reports :: "event list \<Rightarrow> event list" where
  "reports trace = filter is_report trace"

text \<open>The calls of \<open>sendMetric\<close> and \<open>sendLog\<close>.\<close>

fun is_send :: "event \<Rightarrow> bool" where
  "is_send (SendMetric n v ts ty) = True"
| "is_send (SendLog m l d) = True"
| "is_send e = False"

definition sends :: "event list \<Rightarrow> event list" where
  "sends trace = filter is_send trace"

text \<open>The HTTPS requests that were issued.\<close>

fun http_requests :: "event list \<Rightarrow> http_request list" where
  "http_requests [] = []"
| "http_requests (HttpRequest r # es) = r # http_requests es"
| "http_requests (e # es) = http_requests es"

text \<open>The texts of the console lines.\<close>

fun console_lines :: "event list \<Rightarrow> string list" where
  "console_lines [] = []"
| "console_lines (Console l t obj # es) = t # console_lines es"
| "console_lines (e # es) = console_lines es"

text \<open>The value of a tag of a span.\<close>

definition tag :: "span \<Rightarrow> string \<Rightarrow> jsvalue option" where
  "tag sp key = map_of (tags sp) key"

section \<open>The two steps and the two results of the pipeline\<close>

text \<open>
  The outcome and the trace of the two retried steps, as \<open>generateWithPose\<close> runs them.
\<close>

definition analysis_run ::
  "environment \<Rightarrow> string \<Rightarrow> ImageData \<Rightarrow> (thrown + (text16 \<times> PoseData)) \<times> event list" where
  "analysis_run env apiKey poseImage =
     retryOperation (analysis_operation env apiKey poseImage)
       ''generatePoseDescription'' MAX_RETRIES RETRY_DELAY_MS"

definition image_run ::
  "environment \<Rightarrow> string \<Rightarrow> ImageData \<Rightarrow> ImageData \<Rightarrow> text16 \<Rightarrow> PoseData
    \<Rightarrow> (thrown + string) \<times> event list" where
  "image_run env apiKey userImage poseImage poseDescription' poseData' =
     retryOperation (image_operation env apiKey userImage poseImage poseDescription' poseData')
       ''generatePoseImage'' MAX_RETRIES RETRY_DELAY_MS"

text \<open>The two shapes of result that \<open>generateWithPose\<close> returns.\<close>

definition success_result :: "string \<Rightarrow> text16 \<Rightarrow> PoseData \<Rightarrow> GenerationResult" where
  "success_result generatedImage' poseDescription' poseData' =
     \<lparr>success = True, generatedImage = Some generatedImage',
      poseDescription = Some poseDescription', poseData = Some poseData', error = None\<rparr>"

definition failure_result :: "thrown \<Rightarrow> GenerationResult" where
  "failure_result err =
     \<lparr>success = False, generatedImage = None, poseDescription = None, poseData = None,
      error = Some (errorMessage_of err)\<rparr>"

text \<open>
  \<open>generateWithPose\<close> starts from the empty world, so the span it opens first, its parent
  span, is the first span of the world it leaves behind.
\<close>

definition parent_span :: "world \<Rightarrow> span" where
  "parent_span w = spans w ! 0"

text \<open>
  The world in which the \<open>try\<close> block of \<open>generateWithPose\<close> starts, and the metrics
  tracker that was constructed on the way.
\<close>

definition before_try :: "environment \<Rightarrow> world" where
  "before_try env =
     snd (startLLMSpan ''full_generation'' ''gemini-pipeline''
       (snd (new_LLMMetrics env ''full_generation'' ''gemini-pipeline''
          (snd (Date_now env initial_world)))))"

definition the_metrics :: "environment \<Rightarrow> LLMMetrics" where
  "the_metrics env =
     \<lparr>metrics_startTime = clock env (Suc 0), metrics_operationName = ''full_generation'',
      metrics_modelName = ''gemini-pipeline''\<rparr>"

section \<open>The notions of the specification\<close>

text \<open>
  The parts of a response in which an image is looked for, and the image payloads among
  them: the data of each part that carries a non-empty \<open>inlineData.data\<close>.
\<close>

definition response_parts :: "GenerateContentResponse \<Rightarrow> Part list" where
  "response_parts response =
     (case candidates response of
        None \<Rightarrow> []
      | Some [] \<Rightarrow> []
      | Some (candidate # others) \<Rightarrow>
          (case content candidate of
             None \<Rightarrow> []
           | Some c \<Rightarrow> (case parts c of None \<Rightarrow> [] | Some ps \<Rightarrow> ps)))"

fun image_payloads :: "Part list \<Rightarrow> string list" where
  "image_payloads [] = []"
| "image_payloads (part # rest) =
     (case inlineData part of
        None \<Rightarrow> image_payloads rest
      | Some blob \<Rightarrow>
          (case inline_data blob of
             None \<Rightarrow> image_payloads rest
           | Some d \<Rightarrow> if d = [] then image_payloads rest else d # image_payloads rest))"

text \<open>
  What the specification says one attempt of image generation makes of a response:
  \<open>NoImageReturned\<close> when there is no image payload among the parts, the first payload
  otherwise.
\<close>

definition spec_image_of_response :: "GenerateContentResponse \<Rightarrow> thrown + string" where
  "spec_image_of_response response =
     (case image_payloads (response_parts response) of
        [] \<Rightarrow> Inl no_image_error
      | d # ds \<Rightarrow> Inr d)"

text \<open>The concatenation of the seven region descriptions, in the order of the data model.\<close>

definition region_concatenation :: "PoseData \<Rightarrow> text16" where
  "region_concatenation pd =
     description (head pd) @ description (torso pd) @ description (leftArm pd) @
     description (rightArm pd) @ description (leftLeg pd) @ description (rightLeg pd) @
     description (overall pd)"

section \<open>Example operations and environments\<close>

text \<open>An operation that fails three times with three different errors.\<close>

definition fails_thrice :: "int \<Rightarrow> thrown + string" where
  "fails_thrice k =
     (if k = 1 then Inl (Error ''first'')
      else if k = 2 then Inl (Error ''second'')
      else Inl (Error ''third''))"

text \<open>An operation that fails once and then succeeds.\<close>

definition second_time_lucky :: "int \<Rightarrow> thrown + string" where
  "second_time_lucky k = (if k = 1 then Inl (Error ''first'') else Inr ''done'')"

text \<open>Two images and a pose.\<close>

definition user_photo :: ImageData where
  "user_photo = \<lparr>data = ''dXNlcg=='', mimeType = ''image/jpeg''\<rparr>"

definition pose_photo :: ImageData where
  "pose_photo = \<lparr>data = ''cG9zZQ=='', mimeType = ''image/png''\<rparr>"

definition example_pose :: PoseData where
  "example_pose =
     \<lparr>head = \<lparr>description = units ''tilted''\<rparr>, torso = \<lparr>description = units ''upright''\<rparr>,
      leftArm = \<lparr>description = units ''raised''\<rparr>, rightArm = \<lparr>description = units ''lowered''\<rparr>,
      leftLeg = \<lparr>description = units ''bent''\<rparr>, rightLeg = \<lparr>description = units ''straight''\<rparr>,
      overall = \<lparr>description = units ''balanced''\<rparr>\<rparr>"

text \<open>
  The JSON text of the example pose, and the same text as the remote model sends it, with
  white space around it.
\<close>

definition example_json :: text16 where
  \<open>example_json = units
     (''{"head":{"description":"tilted"},"torso":{"description":"upright"},'' @
      ''"leftArm":{"description":"raised"},"rightArm":{"description":"lowered"},'' @
      ''"leftLeg":{"description":"bent"},"rightLeg":{"description":"straight"},'' @
      ''"overall":{"description":"balanced"}}'')\<close>

definition example_text :: text16 where
  "example_text = units '' '' @ example_json @ units ''\<newline>''"

text \<open>
  A remote model that answers the analysis request with a text and the image request with
  one image part; one that answers every request with an empty text and no candidates; and
  one that answers the analysis request like the first and the image request with an
  empty array of candidates.
\<close>

definition image_response :: GenerateContentResponse where
  "image_response =
     \<lparr>response_text = None,
      candidates = Some [\<lparr>content = Some \<lparr>parts = Some
        [\<lparr>inlineData = Some \<lparr>inline_data = Some ''aW1hZ2U=''\<rparr>\<rparr>]\<rparr>\<rparr>]\<rparr>"

definition helpful_remote :: "genai_request \<Rightarrow> int \<Rightarrow> thrown + GenerateContentResponse" where
  "helpful_remote request attempt =
     (case config request of
        JsonSchemaResponse \<Rightarrow> Inr \<lparr>response_text = Some example_text, candidates = None\<rparr>
      | ImageModality \<Rightarrow> Inr image_response)"

definition silent_remote :: "genai_request \<Rightarrow> int \<Rightarrow> thrown + GenerateContentResponse" where
  "silent_remote request attempt = Inr \<lparr>response_text = Some [], candidates = None\<rparr>"

definition empty_candidates_response :: GenerateContentResponse where
  "empty_candidates_response = \<lparr>response_text = None, candidates = Some []\<rparr>"

definition evasive_remote :: "genai_request \<Rightarrow> int \<Rightarrow> thrown + GenerateContentResponse" where
  "evasive_remote request attempt =
     (case config request of
        JsonSchemaResponse \<Rightarrow> Inr \<lparr>response_text = Some example_text, candidates = None\<rparr>
      | ImageModality \<Rightarrow> Inr empty_candidates_response)"


text \<open>A parser that knows the JSON text of the example pose and rejects every other text.\<close>

definition example_parse :: "text16 \<Rightarrow> thrown + PoseData" where
  "example_parse t =
     (if t = example_json then Inr example_pose else Inl (Error ''Unexpected token''))"

text \<open>
  Process environments without an API key, with one, and with one that ends with a line
  feed, as a key that was read from a file with its last line break.
\<close>

definition no_variables :: "string \<Rightarrow> string option" where
  "no_variables name = None"

definition with_api_key :: "string \<Rightarrow> string option" where
  "with_api_key name = (if name = ''DD_API_KEY'' then Some ''0123456789abcdef'' else None)"

definition with_bad_key :: "string \<Rightarrow> string option" where
  "with_bad_key name =
     (if name = ''DD_API_KEY'' then Some ''0123456789abcdef\<newline>'' else None)"

text \<open>
  HTTPS that accepts and that refuses every request; HTTPS as Node.js has it, where
  \<open>https.request\<close> throws when the value of a header has a line feed, and that accepts every
  other request; and HTTPS where the connection is lost in the middle of every response.
\<close>

definition accepting :: "http_request \<Rightarrow> http_result" where
  "accepting request = Response 202 ''{}''"

definition refusing :: "http_request \<Rightarrow> http_result" where
  "refusing request = Response 403 ''Forbidden''"

definition invalid_header_error :: thrown where
  \<open>invalid_header_error = TypeError ''Invalid character in header content ["DD-API-KEY"]''\<close>

definition strict_headers :: "http_request \<Rightarrow> http_result" where
  "strict_headers request =
     (if CHR ''\<newline>'' \<in> set (header_DD_API_KEY request) then Throws invalid_header_error
      else Response 202 ''{}'')"

definition cut_off :: "http_request \<Rightarrow> http_result" where
  "cut_off request = Truncated"

definition example_env ::
  "(string \<Rightarrow> string option) \<Rightarrow> (http_request \<Rightarrow> http_result)
    \<Rightarrow> (genai_request \<Rightarrow> int \<Rightarrow> thrown + GenerateContentResponse) \<Rightarrow> environment" where
  "example_env variables https remote =
     \<lparr>process_env = variables, clock = (\<lambda>n. 1700000000000 + 250 * int n),
      https_request = https, generateContent = remote, JSON_parse = example_parse\<rparr>"

section \<open>Reading the trace of the retry loop\<close>

lemma calls_and_waits_append [simp]:
  "calls_and_waits (xs @ ys) = calls_and_waits xs @ calls_and_waits ys"
  by (simp add: calls_and_waits_def)

lemma calls_and_waits_simps [simp]:
  "calls_and_waits [] = []"
  "calls_and_waits (Invoke n k # es) = Invoke n k # calls_and_waits es"
  "calls_and_waits (Wait d # es) = Wait d # calls_and_waits es"
  "calls_and_waits (Console l t obj # es) = calls_and_waits es"
  by (simp_all add: calls_and_waits_def)

lemma invocations_append [simp]:
  "invocations name (xs @ ys) = invocations name xs @ invocations name ys"
  by (induction name xs rule: invocations.induct) simp_all

lemma waits_append [simp]: "waits (xs @ ys) = waits xs @ waits ys"
  by (induction xs rule: waits.induct) simp_all

lemma all_failed_read [simp]:
  "calls_and_waits [line_all_failed name m] = []"
  "invocations name' [line_all_failed name m] = []"
  "waits [line_all_failed name m] = []"
  by (simp_all add: line_all_failed_def)

lemma started_read [simp]:
  "calls_and_waits [line_started name a m] = []"
  "invocations name' [line_started name a m] = []"
  "waits [line_started name a m] = []"
  by (simp_all add: line_started_def)

lemma after_failure_read:
  "calls_and_waits (after_failure name maxAttempts d attempt e) =
     (if attempt < maxAttempts then [Invoke name attempt, Wait d] else [Invoke name attempt])"
  "invocations name (after_failure name maxAttempts d attempt e) = [attempt]"
  "waits (after_failure name maxAttempts d attempt e) = (if attempt < maxAttempts then [d] else [])"
  by (simp_all add: after_failure_def line_started_def line_failed_def line_retrying_def)

section \<open>The retry loop, one step at a time\<close>

lemma retry_loop_exhausted:
  "\<not> attempt \<le> maxAttempts \<Longrightarrow>
   retry_loop operation name maxAttempts d attempt le tr =
     (Inl le, tr @ [line_all_failed name maxAttempts])"
  by (subst retry_loop.simps) simp

lemma retry_loop_success:
  "attempt \<le> maxAttempts \<Longrightarrow> operation attempt = Inr v \<Longrightarrow>
   retry_loop operation name maxAttempts d attempt le tr =
     (Inr v, tr @ (if attempt > 1 then [line_started name attempt maxAttempts] else []) @
        [Invoke name attempt])"
  by (subst retry_loop.simps) simp

lemma retry_loop_failure:
  "attempt \<le> maxAttempts \<Longrightarrow> operation attempt = Inl e \<Longrightarrow>
   retry_loop operation name maxAttempts d attempt le tr =
     retry_loop operation name maxAttempts d (attempt + 1) e
       (tr @ after_failure name maxAttempts d attempt e)"
  by (subst retry_loop.simps) (simp add: after_failure_def)

text \<open>
  From attempt \<open>a\<close> on, when every attempt up to \<open>N\<close> fails: the loop makes the attempts
  \<open>a\<close> to \<open>N\<close>, waits after each but the last, and ends with the failure of attempt \<open>N\<close>.
\<close>

lemma retry_loop_all_fail:
  "\<forall>k. a \<le> k \<and> k \<le> N \<longrightarrow> isl (operation k) \<Longrightarrow> a \<le> N \<Longrightarrow>
   fst (retry_loop operation name N d a le tr) = operation N \<and>
   invocations name (snd (retry_loop operation name N d a le tr)) = invocations name tr @ [a..N] \<and>
   waits (snd (retry_loop operation name N d a le tr)) = waits tr @ replicate (nat (N - a)) d \<and>
   calls_and_waits (snd (retry_loop operation name N d a le tr)) =
     calls_and_waits tr @
     concat (map (\<lambda>k. if k < N then [Invoke name k, Wait d] else [Invoke name k]) [a..N])"
proof (induction "nat (N - a)" arbitrary: a le tr)
  case 0
  then have eq: "a = N" by simp
  from "0.prems" eq obtain e where e: "operation N = Inl e" by (cases "operation N") auto
  have s: "retry_loop operation name N d N le tr =
      (Inl e, tr @ after_failure name N d N e @ [line_all_failed name N])"
    using e by (simp add: retry_loop_failure retry_loop_exhausted)
  show ?case unfolding eq s using e
    by (simp add: after_failure_read)
next
  case (Suc n)
  then have lt: "a < N" by simp
  from Suc.prems obtain e where e: "operation a = Inl e" by (cases "operation a") auto
  have s: "retry_loop operation name N d a le tr =
           retry_loop operation name N d (a + 1) e (tr @ after_failure name N d a e)"
    using e lt by (simp add: retry_loop_failure)
  have n: "n = nat (N - (a + 1))" using Suc.hyps(2) by simp
  have p: "\<forall>k. a + 1 \<le> k \<and> k \<le> N \<longrightarrow> isl (operation k)" using Suc.prems by simp
  have u: "[a..N] = a # [a + 1..N]" using lt by (simp add: upto_rec1)
  have r: "replicate (nat (N - a)) d = d # replicate (nat (N - (a + 1))) d"
    using Suc.hyps(2) n by (metis replicate_Suc)
  from Suc.hyps(1)[OF n p, of e "tr @ after_failure name N d a e"] lt
  show ?case unfolding s u r using lt by (simp add: after_failure_read)
qed

text \<open>
  From attempt \<open>a\<close> on, when attempt \<open>K\<close> is the first that succeeds: the loop makes the
  attempts \<open>a\<close> to \<open>K\<close>, waits after each failure, and returns the result of attempt \<open>K\<close>.
\<close>

lemma retry_loop_first_success:
  "\<forall>k. a \<le> k \<and> k < K \<longrightarrow> isl (operation k) \<Longrightarrow> a \<le> K \<Longrightarrow> K \<le> N \<Longrightarrow>
   operation K = Inr v \<Longrightarrow>
   fst (retry_loop operation name N d a le tr) = Inr v \<and>
   invocations name (snd (retry_loop operation name N d a le tr)) = invocations name tr @ [a..K] \<and>
   waits (snd (retry_loop operation name N d a le tr)) = waits tr @ replicate (nat (K - a)) d \<and>
   calls_and_waits (snd (retry_loop operation name N d a le tr)) =
     calls_and_waits tr @ concat (map (\<lambda>k. [Invoke name k, Wait d]) [a..K - 1]) @ [Invoke name K]"
proof (induction "nat (K - a)" arbitrary: a le tr)
  case 0
  then have eq: "a = K" by simp
  show ?case unfolding eq using "0.prems"
    by (simp add: retry_loop_success)
next
  case (Suc n)
  then have lt: "a < K" by simp
  from Suc.prems lt obtain e where e: "operation a = Inl e" by (cases "operation a") auto
  have s: "retry_loop operation name N d a le tr =
           retry_loop operation name N d (a + 1) e (tr @ after_failure name N d a e)"
    using e lt Suc.prems by (simp add: retry_loop_failure)
  have n: "n = nat (K - (a + 1))" using Suc.hyps(2) by simp
  have p: "\<forall>k. a + 1 \<le> k \<and> k < K \<longrightarrow> isl (operation k)" using Suc.prems by simp
  have u: "[a..K] = a # [a + 1..K]" "[a..K - 1] = a # [a + 1..K - 1]"
    using lt by (simp_all add: upto_rec1)
  have r: "replicate (nat (K - a)) d = d # replicate (nat (K - (a + 1))) d"
    using Suc.hyps(2) n by (metis replicate_Suc)
  have aN: "a < N" using lt Suc.prems by simp
  from Suc.hyps(1)[OF n p _ Suc.prems(3) Suc.prems(4), of e "tr @ after_failure name N d a e"] lt
  show ?case unfolding s u r using aN by (simp add: after_failure_read)
qed

lemma upto_1_3: "[1..3] = [1, 2, 3::int]"
  by (simp add: upto_rec1)

lemma upto_1_2: "[1..2] = [1, 2::int]"
  by (simp add: upto_rec1)

section \<open>Reading the fields of the world after each operation\<close>

lemma initial_world_fields [simp]:
  "spans initial_world = []" "events initial_world = []" "ticks initial_world = 0"
  "in_flight initial_world = []"
  by (simp_all add: initial_world_def)

lemma emit_fields [simp]:
  "events (emit es w) = events w @ es" "spans (emit es w) = spans w" "ticks (emit es w) = ticks w"
  "in_flight (emit es w) = in_flight w"
  by (simp_all add: emit_def)

lemma console_fields [simp]:
  "events (console l t w) = events w @ [Console l t None]" "spans (console l t w) = spans w"
  "ticks (console l t w) = ticks w" "in_flight (console l t w) = in_flight w"
  by (simp_all add: console_def)

lemma Date_now_fields [simp]:
  "fst (Date_now env w) = clock env (ticks w)"
  "events (snd (Date_now env w)) = events w" "spans (snd (Date_now env w)) = spans w"
  "ticks (snd (Date_now env w)) = Suc (ticks w)"
  "in_flight (snd (Date_now env w)) = in_flight w"
  by (simp_all add: Date_now_def)

lemma reports_append [simp]: "reports (xs @ ys) = reports xs @ reports ys"
  by (simp add: reports_def)

lemma sends_append [simp]: "sends (xs @ ys) = sends xs @ sends ys"
  by (simp add: sends_def)

lemma http_requests_append [simp]: "http_requests (xs @ ys) = http_requests xs @ http_requests ys"
  by (induction xs rule: http_requests.induct) simp_all

lemma console_lines_append [simp]: "console_lines (xs @ ys) = console_lines xs @ console_lines ys"
  by (induction xs rule: console_lines.induct) simp_all

lemma reports_simps [simp]:
  "reports [] = []"
  "reports (RecordSuccess # es) = RecordSuccess # reports es"
  "reports (RecordError m # es) = RecordError m # reports es"
  "reports (Invoke n k # es) = reports es"
  "reports (Wait d # es) = reports es"
  "reports (Console l t obj # es) = reports es"
  "reports (SendMetric n v ts ty # es) = reports es"
  "reports (SendLog msg lvl ad # es) = reports es"
  "reports (HttpRequest r # es) = reports es"
  by (simp_all add: reports_def)

lemma sends_simps [simp]:
  "sends [] = []"
  "sends (RecordSuccess # es) = sends es"
  "sends (RecordError m # es) = sends es"
  "sends (Invoke n k # es) = sends es"
  "sends (Wait d # es) = sends es"
  "sends (Console l t obj # es) = sends es"
  "sends (SendMetric n v ts ty # es) = SendMetric n v ts ty # sends es"
  "sends (SendLog msg lvl ad # es) = SendLog msg lvl ad # sends es"
  "sends (HttpRequest r # es) = sends es"
  by (simp_all add: sends_def)

lemma startSpan_fields [simp]:
  "fst (startSpan name parent ts w) = length (spans w)"
  "spans (snd (startSpan name parent ts w)) =
     spans w @ [\<lparr>span_name = name, childOf = parent, tags = ts, finish_count = 0\<rparr>]"
  "events (snd (startSpan name parent ts w)) = events w"
  "ticks (snd (startSpan name parent ts w)) = ticks w"
  by (simp_all add: startSpan_def)

lemma setTag_fields [simp]:
  "length (spans (setTag sp key v w)) = length (spans w)"
  "events (setTag sp key v w) = events w"
  "ticks (setTag sp key v w) = ticks w"
  by (simp_all add: setTag_def)

lemma setTag_nth:
  "i < length (spans w) \<Longrightarrow>
   spans (setTag sp key v w) ! i =
     (if i = sp then (spans w ! i)\<lparr>tags := AList.update key v (tags (spans w ! i))\<rparr>
      else spans w ! i)"
  by (simp add: setTag_def)

lemma finish_fields [simp]:
  "length (spans (finish sp w)) = length (spans w)"
  "events (finish sp w) = events w"
  "ticks (finish sp w) = ticks w"
  by (simp_all add: finish_def)

lemma finish_nth:
  "i < length (spans w) \<Longrightarrow>
   spans (finish sp w) ! i =
     (if i = sp then (spans w ! i)\<lparr>finish_count := Suc (finish_count (spans w ! i))\<rparr>
      else spans w ! i)"
  by (simp add: finish_def)

lemma startLLMSpan_fields [simp]:
  "fst (startLLMSpan opn mdl w) = length (spans w)"
  "spans (snd (startLLMSpan opn mdl w)) =
     spans w @ [\<lparr>span_name = ''llm.'' @ opn, childOf = None,
                  tags = [(''llm.provider'', JString ''google''), (''llm.model'', JString mdl),
                          (''llm.request_type'', JString ''pose_transformation'')],
                  finish_count = 0\<rparr>]"
  "events (snd (startLLMSpan opn mdl w)) =
     events w @ [Console Log (''[Datadog] Creating span: llm.'' @ opn @ '', model: '' @ mdl) None]"
  "ticks (snd (startLLMSpan opn mdl w)) = ticks w"
  by (simp_all add: startLLMSpan_def Let_def)

lemma recordGeneration_fields [simp]:
  "spans (recordGeneration b l e w) = spans w"
  "ticks (recordGeneration b l e w) = ticks w"
  "reports (events (recordGeneration b l e w)) = reports (events w)"
  "sends (events (recordGeneration b l e w)) = sends (events w)"
  "invocations nm (events (recordGeneration b l e w)) = invocations nm (events w)"
  "http_requests (events (recordGeneration b l e w)) = http_requests (events w)"
  by (simp_all add: recordGeneration_def Let_def)

lemma new_LLMMetrics_fields [simp]:
  "fst (new_LLMMetrics env opn mdl w) =
     \<lparr>metrics_startTime = clock env (ticks w), metrics_operationName = opn, metrics_modelName = mdl\<rparr>"
  "spans (snd (new_LLMMetrics env opn mdl w)) = spans w"
  "ticks (snd (new_LLMMetrics env opn mdl w)) = Suc (ticks w)"
  "events (snd (new_LLMMetrics env opn mdl w)) =
     events w @ [Console Log (''[LLM Metrics] Starting: '' @ opn @ '' with '' @ mdl) None]"
  by (simp_all add: new_LLMMetrics_def Let_def split_def)

section \<open>Requests and their ends\<close>

text \<open>The handlers of a request write to the console and do nothing else.\<close>

lemma handlers_fields [simp]:
  "spans (snd (handlers env f w)) = spans w"
  "ticks (snd (handlers env f w)) = ticks w"
  "in_flight (snd (handlers env f w)) = in_flight w"
  "reports (events (snd (handlers env f w))) = reports (events w)"
  "sends (events (snd (handlers env f w))) = sends (events w)"
  "invocations nm (events (snd (handlers env f w))) = invocations nm (events w)"
  "http_requests (events (snd (handlers env f w))) = http_requests (events w)"
  by (cases f; simp add: metric_handlers_def log_handlers_def split: http_result.splits)+

lemma handle_all_fields [simp]:
  "spans (snd (handle_all env fs w)) = spans w"
  "ticks (snd (handle_all env fs w)) = ticks w"
  "in_flight (snd (handle_all env fs w)) = in_flight w"
  "reports (events (snd (handle_all env fs w))) = reports (events w)"
  "sends (events (snd (handle_all env fs w))) = sends (events w)"
  "invocations nm (events (snd (handle_all env fs w))) = invocations nm (events w)"
  "http_requests (events (snd (handle_all env fs w))) = http_requests (events w)"
  by (induction fs arbitrary: w; simp add: split_def Let_def)+

lemma drain_fields [simp]:
  "spans (drain env w) = spans w"
  "ticks (drain env w) = ticks w"
  "in_flight (drain env w) = []"
  "reports (events (drain env w)) = reports (events w)"
  "sends (events (drain env w)) = sends (events w)"
  "invocations nm (events (drain env w)) = invocations nm (events w)"
  "http_requests (events (drain env w)) = http_requests (events w)"
  by (simp_all add: drain_def)

lemma drain_nothing [simp]: "in_flight w = [] \<Longrightarrow> drain env w = w"
  by (simp add: drain_def)

lemma await_all_fields [simp]:
  "spans (snd (await_all env ss w)) = spans w"
  "ticks (snd (await_all env ss w)) = ticks w"
  "reports (events (snd (await_all env ss w))) = reports (events w)"
  "sends (events (snd (await_all env ss w))) = sends (events w)"
  "invocations nm (events (snd (await_all env ss w))) = invocations nm (events w)"
  "http_requests (events (snd (await_all env ss w))) = http_requests (events w)"
  by (simp_all add: await_all_def split_def Let_def split: outcome.splits)

text \<open>A request that is answered resolves its promise.\<close>

lemma handlers_answered:
  "answered (https_request env request) \<Longrightarrow>
   fst (metric_handlers env n v request w) = Resolved ()"
  "answered (https_request env request) \<Longrightarrow>
   fst (log_handlers env m request w) = Resolved ()"
  by (cases "https_request env request"; simp add: metric_handlers_def log_handlers_def)+

lemma await_all_skipped [simp]:
  "await_all env [Skipped] w = (Resolved (), w)"
  "await_all env [Skipped, Skipped, Skipped] w = (Resolved (), w)"
  by (simp_all add: await_all_def)

lemma await_all_answered:
  "answered (https_request env r1) \<Longrightarrow>
   fst (await_all env [InFlight (MetricFlight n1 v1 r1)] w) = Resolved ()"
  "answered (https_request env r3) \<Longrightarrow>
   fst (await_all env [InFlight (LogFlight m r3)] w) = Resolved ()"
  "answered (https_request env r1) \<Longrightarrow> answered (https_request env r2) \<Longrightarrow>
   answered (https_request env r3) \<Longrightarrow>
   fst (await_all env [InFlight (MetricFlight n1 v1 r1), InFlight (MetricFlight n2 v2 r2),
                       InFlight (LogFlight m r3)] w) = Resolved ()"
  by (simp_all add: await_all_def split_def Let_def handlers_answered)

lemma await_all_threw:
  "await_all env (Threw e # ss) w = (Rejected e, w\<lparr>in_flight := in_flight w @ flights ss\<rparr>)"
  by (simp add: await_all_def)

section \<open>\<open>sendMetric\<close> and \<open>sendLog\<close>\<close>

lemma request_headers [simp]:
  "header_DD_API_KEY (metric_request env n v ts ty now) = the (DD_API_KEY env)"
  "header_DD_API_KEY (log_request env msg lvl ad) = the (DD_API_KEY env)"
  by (simp_all add: metric_request_def log_request_def Let_def)

lemma sendMetric_call_fields [simp]:
  "spans (snd (sendMetric_call env n v ts ty w)) = spans w"
  "ticks (snd (sendMetric_call env n v ts ty w)) =
     (if truthy (DD_API_KEY env) then Suc (ticks w) else ticks w)"
  "in_flight (snd (sendMetric_call env n v ts ty w)) = in_flight w"
  "reports (events (snd (sendMetric_call env n v ts ty w))) = reports (events w)"
  "sends (events (snd (sendMetric_call env n v ts ty w))) = sends (events w) @ [SendMetric n v ts ty]"
  "invocations nm (events (snd (sendMetric_call env n v ts ty w))) = invocations nm (events w)"
  by (simp_all add: sendMetric_call_def Let_def split_def split: http_result.splits)

lemma sendLog_call_fields [simp]:
  "spans (snd (sendLog_call env m l ad w)) = spans w"
  "ticks (snd (sendLog_call env m l ad w)) = ticks w"
  "in_flight (snd (sendLog_call env m l ad w)) = in_flight w"
  "reports (events (snd (sendLog_call env m l ad w))) = reports (events w)"
  "sends (events (snd (sendLog_call env m l ad w))) = sends (events w) @ [SendLog m l ad]"
  "invocations nm (events (snd (sendLog_call env m l ad w))) = invocations nm (events w)"
  by (simp_all add: sendLog_call_def Let_def split_def split: http_result.splits)

text \<open>Without an API key.\<close>

lemma sendMetric_call_skipped:
  "\<not> truthy (DD_API_KEY env) \<Longrightarrow>
   sendMetric_call env n v ts ty w =
     (Skipped, console Log ''[Datadog API] No API key, skipping metric''
                 (emit [SendMetric n v ts ty] w))"
  by (simp add: sendMetric_call_def Let_def)

lemma sendLog_call_skipped:
  "\<not> truthy (DD_API_KEY env) \<Longrightarrow>
   sendLog_call env m l ad w =
     (Skipped, console Log ''[Datadog API] No API key, skipping log'' (emit [SendLog m l ad] w))"
  by (simp add: sendLog_call_def Let_def)

text \<open>With an API key, when \<open>https.request\<close> does not throw: the request is made.\<close>

lemma sendMetric_call_made:
  assumes "truthy (DD_API_KEY env)"
    and "\<forall>e. https_request env (metric_request env n v ts ty (clock env (ticks w))) \<noteq> Throws e"
  shows "fst (sendMetric_call env n v ts ty w) =
           InFlight (MetricFlight n v (metric_request env n v ts ty (clock env (ticks w))))"
    and "http_requests (events (snd (sendMetric_call env n v ts ty w))) =
           http_requests (events w) @ [metric_request env n v ts ty (clock env (ticks w))]"
  using assms
  by (simp_all add: sendMetric_call_def Let_def split_def split: http_result.splits)

lemma sendLog_call_made:
  assumes "truthy (DD_API_KEY env)"
    and "\<forall>e. https_request env (log_request env m l ad) \<noteq> Throws e"
  shows "fst (sendLog_call env m l ad w) = InFlight (LogFlight m (log_request env m l ad))"
    and "http_requests (events (snd (sendLog_call env m l ad w))) =
           http_requests (events w) @ [log_request env m l ad]"
  using assms
  by (simp_all add: sendLog_call_def Let_def split_def split: http_result.splits)

text \<open>With an API key, when \<open>https.request\<close> throws: no request is made.\<close>

lemma sendMetric_call_threw:
  assumes "truthy (DD_API_KEY env)"
    and "https_request env (metric_request env n v ts ty (clock env (ticks w))) = Throws e"
  shows "fst (sendMetric_call env n v ts ty w) = Threw e"
    and "http_requests (events (snd (sendMetric_call env n v ts ty w))) = http_requests (events w)"
  using assms by (simp_all add: sendMetric_call_def Let_def split_def)

lemma sendLog_call_threw:
  assumes "truthy (DD_API_KEY env)"
    and "https_request env (log_request env m l ad) = Throws e"
  shows "fst (sendLog_call env m l ad w) = Threw e"
    and "http_requests (events (snd (sendLog_call env m l ad w))) = http_requests (events w)"
  using assms by (simp_all add: sendLog_call_def Let_def split_def)

text \<open>The requests of the two senders carry the API key of the environment.\<close>

lemma keyed_requests_answered:
  assumes "\<forall>request. header_DD_API_KEY request = the (DD_API_KEY env) \<longrightarrow>
             answered (https_request env request)"
  shows "answered (https_request env (metric_request env n v ts ty now))"
    and "answered (https_request env (log_request env m l ad))"
    and "https_request env (metric_request env n v ts ty now) \<noteq> Throws e"
    and "https_request env (log_request env m l ad) \<noteq> Throws e"
proof -
  show a: "answered (https_request env (metric_request env n v ts ty now))"
    using assms by simp
  show b: "answered (https_request env (log_request env m l ad))"
    using assms by simp
  show "https_request env (metric_request env n v ts ty now) \<noteq> Throws e"
    using a by auto
  show "https_request env (log_request env m l ad) \<noteq> Throws e"
    using b by auto
qed

section \<open>\<open>recordSuccess\<close> and \<open>recordError\<close>\<close>

text \<open>What the two methods do whatever becomes of the requests.\<close>

lemma recordSuccess_fields [simp]:
  "spans (snd (recordSuccess env m w)) = spans w"
  "ticks (snd (recordSuccess env m w)) =
     (if truthy (DD_API_KEY env) then Suc (Suc (Suc (ticks w))) else Suc (ticks w))"
  "reports (events (snd (recordSuccess env m w))) = reports (events w) @ [RecordSuccess]"
  "invocations nm (events (snd (recordSuccess env m w))) = invocations nm (events w)"
  by (simp_all add: recordSuccess_def Let_def split_def)

lemma recordError_fields [simp]:
  "spans (snd (recordError env m msg w)) = spans w"
  "ticks (snd (recordError env m msg w)) =
     (if truthy (DD_API_KEY env) then Suc (Suc (Suc (ticks w))) else Suc (ticks w))"
  "reports (events (snd (recordError env m msg w))) = reports (events w) @ [RecordError msg]"
  "invocations nm (events (snd (recordError env m msg w))) = invocations nm (events w)"
  by (simp_all add: recordError_def Let_def split_def)

lemma recordSuccess_sends [simp]:
  "sends (events (snd (recordSuccess env m w))) = sends (events w) @
     [SendMetric ''poseshift.llm.request.count'' 1
        [''operation:'' @ metrics_operationName m, ''model:'' @ metrics_modelName m,
         ''status:success''] Count,
      SendMetric ''poseshift.llm.request.latency'' (clock env (ticks w) - metrics_startTime m)
        [''operation:'' @ metrics_operationName m, ''model:'' @ metrics_modelName m] Gauge,
      SendLog (''LLM generation completed: '' @ metrics_operationName m) Info
        [(''operation'', JString (metrics_operationName m)),
         (''model'', JString (metrics_modelName m)),
         (''latency_ms'', JNumber (clock env (ticks w) - metrics_startTime m)),
         (''status'', JString ''success'')]]"
  by (simp add: recordSuccess_def Let_def split_def)

lemma recordError_sends [simp]:
  "sends (events (snd (recordError env m msg w))) = sends (events w) @
     [SendMetric ''poseshift.llm.request.count'' 1
        [''operation:'' @ metrics_operationName m, ''model:'' @ metrics_modelName m,
         ''status:error''] Count,
      SendMetric ''poseshift.llm.error.count'' 1
        [''operation:'' @ metrics_operationName m, ''model:'' @ metrics_modelName m] Count,
      SendLog (''LLM generation failed: '' @ metrics_operationName m @ '' - '' @ msg) Failure
        [(''operation'', JString (metrics_operationName m)),
         (''model'', JString (metrics_modelName m)),
         (''latency_ms'', JNumber (clock env (ticks w) - metrics_startTime m)),
         (''status'', JString ''error''),
         (''error'', JString msg)]]"
  by (simp add: recordError_def Let_def split_def)

text \<open>
  When every request is answered, or there is no API key: the two methods resolve, and
  with a key their three requests have been made.
\<close>

lemma recordSuccess_delivered:
  assumes "truthy (DD_API_KEY env) \<longrightarrow>
             (\<forall>request. header_DD_API_KEY request = the (DD_API_KEY env) \<longrightarrow>
                answered (https_request env request))"
  shows "fst (recordSuccess env m w) = Resolved ()"
    and "http_requests (events (snd (recordSuccess env m w))) = http_requests (events w) @
           (if truthy (DD_API_KEY env)
            then [metric_request env ''poseshift.llm.request.count'' 1
                    [''operation:'' @ metrics_operationName m, ''model:'' @ metrics_modelName m,
                     ''status:success''] Count (clock env (Suc (ticks w))),
                  metric_request env ''poseshift.llm.request.latency''
                    (clock env (ticks w) - metrics_startTime m)
                    [''operation:'' @ metrics_operationName m, ''model:'' @ metrics_modelName m]
                    Gauge (clock env (Suc (Suc (ticks w)))),
                  log_request env (''LLM generation completed: '' @ metrics_operationName m) Info
                    [(''operation'', JString (metrics_operationName m)),
                     (''model'', JString (metrics_modelName m)),
                     (''latency_ms'', JNumber (clock env (ticks w) - metrics_startTime m)),
                     (''status'', JString ''success'')]]
            else [])"
proof -
  show "fst (recordSuccess env m w) = Resolved ()"
  proof (cases "truthy (DD_API_KEY env)")
    case False
    then show ?thesis
      by (simp add: recordSuccess_def Let_def split_def sendMetric_call_skipped
            sendLog_call_skipped)
  next
    case True
    with assms have a: "\<forall>request. header_DD_API_KEY request = the (DD_API_KEY env) \<longrightarrow>
                                    answered (https_request env request)" by simp
    show ?thesis
      using True
      by (simp add: recordSuccess_def Let_def split_def sendMetric_call_made sendLog_call_made
            keyed_requests_answered[OF a] await_all_answered)
  qed
  show "http_requests (events (snd (recordSuccess env m w))) = http_requests (events w) @
           (if truthy (DD_API_KEY env)
            then [metric_request env ''poseshift.llm.request.count'' 1
                    [''operation:'' @ metrics_operationName m, ''model:'' @ metrics_modelName m,
                     ''status:success''] Count (clock env (Suc (ticks w))),
                  metric_request env ''poseshift.llm.request.latency''
                    (clock env (ticks w) - metrics_startTime m)
                    [''operation:'' @ metrics_operationName m, ''model:'' @ metrics_modelName m]
                    Gauge (clock env (Suc (Suc (ticks w)))),
                  log_request env (''LLM generation completed: '' @ metrics_operationName m) Info
                    [(''operation'', JString (metrics_operationName m)),
                     (''model'', JString (metrics_modelName m)),
                     (''latency_ms'', JNumber (clock env (ticks w) - metrics_startTime m)),
                     (''status'', JString ''success'')]]
            else [])"
  proof (cases "truthy (DD_API_KEY env)")
    case False
    then show ?thesis
      by (simp add: recordSuccess_def Let_def split_def sendMetric_call_skipped
            sendLog_call_skipped)
  next
    case True
    with assms have a: "\<forall>request. header_DD_API_KEY request = the (DD_API_KEY env) \<longrightarrow>
                                    answered (https_request env request)" by simp
    show ?thesis
      using True
      by (simp add: recordSuccess_def Let_def split_def sendMetric_call_made sendLog_call_made
            keyed_requests_answered[OF a])
  qed
qed

lemma recordError_delivered:
  assumes "truthy (DD_API_KEY env) \<longrightarrow>
             (\<forall>request. header_DD_API_KEY request = the (DD_API_KEY env) \<longrightarrow>
                answered (https_request env request))"
  shows "fst (recordError env m msg w) = Resolved ()"
    and "http_requests (events (snd (recordError env m msg w))) = http_requests (events w) @
           (if truthy (DD_API_KEY env)
            then [metric_request env ''poseshift.llm.request.count'' 1
                    [''operation:'' @ metrics_operationName m, ''model:'' @ metrics_modelName m,
                     ''status:error''] Count (clock env (Suc (ticks w))),
                  metric_request env ''poseshift.llm.error.count'' 1
                    [''operation:'' @ metrics_operationName m, ''model:'' @ metrics_modelName m]
                    Count (clock env (Suc (Suc (ticks w)))),
                  log_request env (''LLM generation failed: '' @ metrics_operationName m
                                    @ '' - '' @ msg) Failure
                    [(''operation'', JString (metrics_operationName m)),
                     (''model'', JString (metrics_modelName m)),
                     (''latency_ms'', JNumber (clock env (ticks w) - metrics_startTime m)),
                     (''status'', JString ''error''),
                     (''error'', JString msg)]]
            else [])"
proof -
  show "fst (recordError env m msg w) = Resolved ()"
  proof (cases "truthy (DD_API_KEY env)")
    case False
    then show ?thesis
      by (simp add: recordError_def Let_def split_def sendMetric_call_skipped
            sendLog_call_skipped)
  next
    case True
    with assms have a: "\<forall>request. header_DD_API_KEY request = the (DD_API_KEY env) \<longrightarrow>
                                    answered (https_request env request)" by simp
    show ?thesis
      using True
      by (simp add: recordError_def Let_def split_def sendMetric_call_made sendLog_call_made
            keyed_requests_answered[OF a] await_all_answered)
  qed
  show "http_requests (events (snd (recordError env m msg w))) = http_requests (events w) @
           (if truthy (DD_API_KEY env)
            then [metric_request env ''poseshift.llm.request.count'' 1
                    [''operation:'' @ metrics_operationName m, ''model:'' @ metrics_modelName m,
                     ''status:error''] Count (clock env (Suc (ticks w))),
                  metric_request env ''poseshift.llm.error.count'' 1
                    [''operation:'' @ metrics_operationName m, ''model:'' @ metrics_modelName m]
                    Count (clock env (Suc (Suc (ticks w)))),
                  log_request env (''LLM generation failed: '' @ metrics_operationName m
                                    @ '' - '' @ msg) Failure
                    [(''operation'', JString (metrics_operationName m)),
                     (''model'', JString (metrics_modelName m)),
                     (''latency_ms'', JNumber (clock env (ticks w) - metrics_startTime m)),
                     (''status'', JString ''error''),
                     (''error'', JString msg)]]
            else [])"
  proof (cases "truthy (DD_API_KEY env)")
    case False
    then show ?thesis
      by (simp add: recordError_def Let_def split_def sendMetric_call_skipped
            sendLog_call_skipped)
  next
    case True
    with assms have a: "\<forall>request. header_DD_API_KEY request = the (DD_API_KEY env) \<longrightarrow>
                                    answered (https_request env request)" by simp
    show ?thesis
      using True
      by (simp add: recordError_def Let_def split_def sendMetric_call_made sendLog_call_made
            keyed_requests_answered[OF a])
  qed
qed

text \<open>
  When \<open>https.request\<close> throws \<open>e\<close> for every request that carries the API key of the
  environment: the two methods reject with \<open>e\<close>, and no request has been made.
\<close>

lemma recordSuccess_refused:
  assumes "truthy (DD_API_KEY env)"
    and "\<forall>request. header_DD_API_KEY request = the (DD_API_KEY env) \<longrightarrow>
           https_request env request = Throws e"
  shows "fst (recordSuccess env m w) = Rejected e"
    and "http_requests (events (snd (recordSuccess env m w))) = http_requests (events w)"
  using assms
  by (simp_all add: recordSuccess_def Let_def split_def sendMetric_call_threw
        sendLog_call_threw await_all_threw)

lemma recordError_refused:
  assumes "truthy (DD_API_KEY env)"
    and "\<forall>request. header_DD_API_KEY request = the (DD_API_KEY env) \<longrightarrow>
           https_request env request = Throws e"
  shows "fst (recordError env m msg w) = Rejected e"
    and "http_requests (events (snd (recordError env m msg w))) = http_requests (events w)"
  using assms
  by (simp_all add: recordError_def Let_def split_def sendMetric_call_threw
        sendLog_call_threw await_all_threw)

text \<open>
  When the connection is lost in the middle of every response: the three requests are
  made, no handler runs, and the two methods never return.
\<close>

lemma handle_all_truncated:
  assumes "\<forall>request. https_request env request = Truncated"
  shows "handle_all env fs w = (map (\<lambda>f. Pending) fs, w)"
proof (induction fs arbitrary: w)
  case Nil
  show ?case by simp
next
  case (Cons f fs)
  have "handlers env f w = (Pending, w)"
    using assms by (cases f) (simp_all add: metric_handlers_def log_handlers_def)
  with Cons show ?case by simp
qed

lemma recordSuccess_truncated:
  assumes "truthy (DD_API_KEY env)" and "\<forall>request. https_request env request = Truncated"
  shows "fst (recordSuccess env m w) = Pending"
  using assms
  by (simp add: recordSuccess_def Let_def split_def sendMetric_call_made sendLog_call_made
        await_all_def handle_all_truncated del: handle_all.simps)

lemma recordError_truncated:
  assumes "truthy (DD_API_KEY env)" and "\<forall>request. https_request env request = Truncated"
  shows "fst (recordError env m msg w) = Pending"
  using assms
  by (simp add: recordError_def Let_def split_def sendMetric_call_made sendLog_call_made
        await_all_def handle_all_truncated del: handle_all.simps)

section \<open>One send, awaited\<close>

lemma sendMetric_without_key:
  "\<not> truthy (DD_API_KEY env) \<Longrightarrow>
   sendMetric env n v ts ty w =
     (Resolved (), console Log ''[Datadog API] No API key, skipping metric''
                     (emit [SendMetric n v ts ty] w))"
  by (simp add: sendMetric_def sendMetric_call_skipped)

lemma sendLog_without_key:
  "\<not> truthy (DD_API_KEY env) \<Longrightarrow>
   sendLog env m l ad w =
     (Resolved (), console Log ''[Datadog API] No API key, skipping log''
                     (emit [SendLog m l ad] w))"
  by (simp add: sendLog_def sendLog_call_skipped)

lemma sendMetric_delivered:
  assumes "truthy (DD_API_KEY env) \<longrightarrow>
             (\<forall>request. header_DD_API_KEY request = the (DD_API_KEY env) \<longrightarrow>
                answered (https_request env request))"
  shows "fst (sendMetric env n v ts ty w) = Resolved ()"
    and "http_requests (events (snd (sendMetric env n v ts ty w))) = http_requests (events w) @
           (if truthy (DD_API_KEY env) then [metric_request env n v ts ty (clock env (ticks w))]
            else [])"
proof -
  show "fst (sendMetric env n v ts ty w) = Resolved ()"
  proof (cases "truthy (DD_API_KEY env)")
    case False
    then show ?thesis by (simp add: sendMetric_without_key)
  next
    case True
    with assms have a: "\<forall>request. header_DD_API_KEY request = the (DD_API_KEY env) \<longrightarrow>
                                    answered (https_request env request)" by simp
    show ?thesis
      using True
      by (simp add: sendMetric_def split_def sendMetric_call_made keyed_requests_answered[OF a]
            await_all_answered)
  qed
  show "http_requests (events (snd (sendMetric env n v ts ty w))) = http_requests (events w) @
           (if truthy (DD_API_KEY env) then [metric_request env n v ts ty (clock env (ticks w))]
            else [])"
  proof (cases "truthy (DD_API_KEY env)")
    case False
    then show ?thesis by (simp add: sendMetric_without_key)
  next
    case True
    with assms have a: "\<forall>request. header_DD_API_KEY request = the (DD_API_KEY env) \<longrightarrow>
                                    answered (https_request env request)" by simp
    show ?thesis
      using True
      by (simp add: sendMetric_def split_def sendMetric_call_made keyed_requests_answered[OF a])
  qed
qed

lemma sendLog_delivered:
  assumes "truthy (DD_API_KEY env) \<longrightarrow>
             (\<forall>request. header_DD_API_KEY request = the (DD_API_KEY env) \<longrightarrow>
                answered (https_request env request))"
  shows "fst (sendLog env m l ad w) = Resolved ()"
    and "http_requests (events (snd (sendLog env m l ad w))) = http_requests (events w) @
           (if truthy (DD_API_KEY env) then [log_request env m l ad] else [])"
proof -
  show "fst (sendLog env m l ad w) = Resolved ()"
  proof (cases "truthy (DD_API_KEY env)")
    case False
    then show ?thesis by (simp add: sendLog_without_key)
  next
    case True
    with assms have a: "\<forall>request. header_DD_API_KEY request = the (DD_API_KEY env) \<longrightarrow>
                                    answered (https_request env request)" by simp
    show ?thesis
      using True
      by (simp add: sendLog_def split_def sendLog_call_made keyed_requests_answered[OF a]
            await_all_answered)
  qed
  show "http_requests (events (snd (sendLog env m l ad w))) = http_requests (events w) @
           (if truthy (DD_API_KEY env) then [log_request env m l ad] else [])"
  proof (cases "truthy (DD_API_KEY env)")
    case False
    then show ?thesis by (simp add: sendLog_without_key)
  next
    case True
    with assms have a: "\<forall>request. header_DD_API_KEY request = the (DD_API_KEY env) \<longrightarrow>
                                    answered (https_request env request)" by simp
    show ?thesis
      using True
      by (simp add: sendLog_def split_def sendLog_call_made keyed_requests_answered[OF a])
  qed
qed

text \<open>The console line of a request that is answered, when no older request is in flight.\<close>

lemma sendMetric_console:
  assumes "truthy (DD_API_KEY env)" and "in_flight w = []"
  shows "https_request env (metric_request env n v ts ty (clock env (ticks w))) = Response s b \<Longrightarrow>
         console_lines (events (snd (sendMetric env n v ts ty w))) = console_lines (events w) @
           [if s = 202 then ''[Datadog API] Metric sent: '' @ n @ '' = '' @ number_string v
            else ''[Datadog API] Error: '' @ number_string s @ '' - '' @ b]"
    and "https_request env (metric_request env n v ts ty (clock env (ticks w))) = RequestError msg \<Longrightarrow>
         console_lines (events (snd (sendMetric env n v ts ty w))) = console_lines (events w) @
           [''[Datadog API] Request error: '' @ msg]"
    and "https_request env (metric_request env n v ts ty (clock env (ticks w))) = Truncated \<Longrightarrow>
         sendMetric env n v ts ty w =
           (Pending, emit [HttpRequest (metric_request env n v ts ty (clock env (ticks w)))]
                       (snd (Date_now env (emit [SendMetric n v ts ty] w))))"
    and "https_request env (metric_request env n v ts ty (clock env (ticks w))) = Throws e \<Longrightarrow>
         sendMetric env n v ts ty w =
           (Rejected e, snd (Date_now env (emit [SendMetric n v ts ty] w)))"
  using assms
  by (simp_all add: sendMetric_def sendMetric_call_def Let_def split_def await_all_def
        Date_now_def emit_def metric_handlers_def drain_def)

lemma sendLog_console:
  assumes "truthy (DD_API_KEY env)" and "in_flight w = []"
  shows "https_request env (log_request env m l ad) = Response s b \<Longrightarrow>
         console_lines (events (snd (sendLog env m l ad w))) = console_lines (events w) @
           [if s = 200 \<or> s = 202 then ''[Datadog API] Log sent: '' @ take 50 m @ ''...''
            else ''[Datadog API] Log error: '' @ number_string s @ '' - '' @ b]"
    and "https_request env (log_request env m l ad) = RequestError msg \<Longrightarrow>
         console_lines (events (snd (sendLog env m l ad w))) = console_lines (events w) @
           [''[Datadog API] Log request error: '' @ msg]"
    and "https_request env (log_request env m l ad) = Truncated \<Longrightarrow>
         sendLog env m l ad w =
           (Pending, emit [HttpRequest (log_request env m l ad)] (emit [SendLog m l ad] w))"
    and "https_request env (log_request env m l ad) = Throws e \<Longrightarrow>
         sendLog env m l ad w = (Rejected e, emit [SendLog m l ad] w)"
  using assms
  by (simp_all add: sendLog_def sendLog_call_def Let_def split_def await_all_def
        emit_def log_handlers_def drain_def)

section \<open>The retried steps\<close>

text \<open>The retry loop adds nothing but calls of its own operation, delays and console lines.\<close>

lemma invocations_simps [simp]:
  "invocations nm (RecordSuccess # es) = invocations nm es"
  "invocations nm (RecordError m # es) = invocations nm es"
  "invocations nm (Wait d # es) = invocations nm es"
  "invocations nm (Console l t obj # es) = invocations nm es"
  "invocations nm (SendMetric n v ts ty # es) = invocations nm es"
  "invocations nm (SendLog msg lvl ad # es) = invocations nm es"
  "invocations nm (HttpRequest r # es) = invocations nm es"
  by simp_all

lemma after_failure_kinds [simp]:
  "reports (after_failure name m d a e) = []"
  "sends (after_failure name m d a e) = []"
  "http_requests (after_failure name m d a e) = []"
  "nm \<noteq> name \<Longrightarrow> invocations nm (after_failure name m d a e) = []"
  by (simp_all add: after_failure_def line_started_def line_failed_def line_retrying_def)

lemma retry_loop_kinds:
  "reports (snd (retry_loop operation name N d a le tr)) = reports tr \<and>
   sends (snd (retry_loop operation name N d a le tr)) = sends tr \<and>
   http_requests (snd (retry_loop operation name N d a le tr)) = http_requests tr \<and>
   (nm \<noteq> name \<longrightarrow>
      invocations nm (snd (retry_loop operation name N d a le tr)) = invocations nm tr)"
proof (induction "nat (N + 1 - a)" arbitrary: a le tr)
  case 0
  then have "\<not> a \<le> N" by simp
  then show ?case by (simp add: retry_loop_exhausted line_all_failed_def)
next
  case (Suc n)
  then have le: "a \<le> N" by simp
  show ?case
  proof (cases "operation a")
    case (Inl e)
    have n: "n = nat (N + 1 - (a + 1))" using Suc.hyps(2) by simp
    show ?thesis
      using Suc.hyps(1)[OF n, of e "tr @ after_failure name N d a e"] le Inl
      by (simp add: retry_loop_failure)
  next
    case (Inr v)
    show ?thesis using le Inr by (simp add: retry_loop_success line_started_def)
  qed
qed

lemma retryOperation_kinds [simp]:
  "reports (snd (retryOperation operation name N d)) = []"
  "sends (snd (retryOperation operation name N d)) = []"
  "http_requests (snd (retryOperation operation name N d)) = []"
  "nm \<noteq> name \<Longrightarrow> invocations nm (snd (retryOperation operation name N d)) = []"
  using retry_loop_kinds[of operation name N d 1 Undefined "[]" nm]
  by (simp_all add: retryOperation_def)

lemma generatePoseDescription_fields [simp]:
  "fst (generatePoseDescription env k p w) = fst (analysis_run env k p)"
  "spans (snd (generatePoseDescription env k p w)) = spans w"
  "ticks (snd (generatePoseDescription env k p w)) = ticks w"
  "events (snd (generatePoseDescription env k p w)) = events w @ snd (analysis_run env k p)"
  by (simp_all add: generatePoseDescription_def analysis_run_def split_def Let_def)

lemma generatePoseImage_fields [simp]:
  "fst (generatePoseImage env k u p d pd w) = fst (image_run env k u p d pd)"
  "spans (snd (generatePoseImage env k u p d pd w)) = spans w"
  "ticks (snd (generatePoseImage env k u p d pd w)) = ticks w"
  "events (snd (generatePoseImage env k u p d pd w)) = events w @ snd (image_run env k u p d pd)"
  by (simp_all add: generatePoseImage_def image_run_def split_def Let_def)

lemma analysis_run_kinds [simp]:
  "reports (snd (analysis_run env k p)) = []"
  "sends (snd (analysis_run env k p)) = []"
  "http_requests (snd (analysis_run env k p)) = []"
  "invocations ''generatePoseImage'' (snd (analysis_run env k p)) = []"
  by (simp_all add: analysis_run_def)

lemma image_run_kinds [simp]:
  "reports (snd (image_run env k u p d pd)) = []"
  "sends (snd (image_run env k u p d pd)) = []"
  "http_requests (snd (image_run env k u p d pd)) = []"
  "invocations ''generatePoseDescription'' (snd (image_run env k u p d pd)) = []"
  by (simp_all add: image_run_def)

text \<open>How HTTPS requests end has no part in the two steps.\<close>

lemma operations_ignore_https:
  "analysis_operation (env\<lparr>https_request := h\<rparr>) k p = analysis_operation env k p"
  "image_operation (env\<lparr>https_request := h\<rparr>) k u p d pd = image_operation env k u p d pd"
  by (rule ext, simp add: analysis_operation_def image_operation_def
        cong: sum.case_cong if_cong)+

lemma runs_ignore_https [simp]:
  "analysis_run (env\<lparr>https_request := h\<rparr>) k p = analysis_run env k p"
  "image_run (env\<lparr>https_request := h\<rparr>) k u p d pd = image_run env k u p d pd"
  by (simp_all add: analysis_run_def image_run_def operations_ignore_https)

section \<open>The \<open>try\<close> block and the \<open>catch\<close> block\<close>

lemma try_block_analysis_failed:
  assumes "fst (analysis_run env k p) = Inl e"
  shows "fst (try_block env k u p st m ps w) = Rejected e"
    and "ticks (snd (try_block env k u p st m ps w)) = ticks w"
    and "reports (events (snd (try_block env k u p st m ps w))) = reports (events w)"
    and "sends (events (snd (try_block env k u p st m ps w))) = sends (events w)"
    and "http_requests (events (snd (try_block env k u p st m ps w))) = http_requests (events w)"
    and "invocations ''generatePoseImage'' (events (snd (try_block env k u p st m ps w))) =
           invocations ''generatePoseImage'' (events w)"
    and "invocations ''generatePoseDescription'' (events (snd (try_block env k u p st m ps w))) =
           invocations ''generatePoseDescription'' (events w) @
           invocations ''generatePoseDescription'' (snd (analysis_run env k p))"
  using assms by (simp_all add: try_block_def Let_def split_def)

lemma try_block_analysis_failed_spans:
  assumes "fst (analysis_run env k p) = Inl e" and "ps < length (spans w)"
  shows "length (spans (snd (try_block env k u p st m ps w))) = length (spans w) + 1"
    and "spans (snd (try_block env k u p st m ps w)) ! ps = spans w ! ps"
  using assms by (simp_all add: try_block_def Let_def split_def nth_append)

lemma try_block_image_failed:
  assumes "fst (analysis_run env k p) = Inr (d, pd)" and "fst (image_run env k u p d pd) = Inl e"
  shows "fst (try_block env k u p st m ps w) = Rejected e"
    and "ticks (snd (try_block env k u p st m ps w)) = ticks w"
    and "reports (events (snd (try_block env k u p st m ps w))) = reports (events w)"
    and "sends (events (snd (try_block env k u p st m ps w))) = sends (events w)"
    and "http_requests (events (snd (try_block env k u p st m ps w))) = http_requests (events w)"
    and "invocations nm (events (snd (try_block env k u p st m ps w))) =
           invocations nm (events w) @ invocations nm (snd (analysis_run env k p)) @
           invocations nm (snd (image_run env k u p d pd))"
  using assms by (simp_all add: try_block_def Let_def split_def)

lemma try_block_image_failed_spans:
  assumes "fst (analysis_run env k p) = Inr (d, pd)" and "fst (image_run env k u p d pd) = Inl e"
    and "ps < length (spans w)"
  shows "length (spans (snd (try_block env k u p st m ps w))) = length (spans w) + 2"
    and "spans (snd (try_block env k u p st m ps w)) ! ps = spans w ! ps"
  using assms by (simp_all add: try_block_def Let_def split_def nth_append setTag_nth finish_nth)

lemma try_block_succeeded:
  assumes "fst (analysis_run env k p) = Inr (d, pd)" and "fst (image_run env k u p d pd) = Inr img"
  shows "reports (events (snd (try_block env k u p st m ps w))) = reports (events w) @ [RecordSuccess]"
    and "ticks (snd (try_block env k u p st m ps w)) =
           (if truthy (DD_API_KEY env) then Suc (Suc (Suc (Suc (ticks w)))) else Suc (Suc (ticks w)))"
    and "invocations nm (events (snd (try_block env k u p st m ps w))) =
           invocations nm (events w) @ invocations nm (snd (analysis_run env k p)) @
           invocations nm (snd (image_run env k u p d pd))"
    and "sends (events (snd (try_block env k u p st m ps w))) = sends (events w) @
           [SendMetric ''poseshift.llm.request.count'' 1
              [''operation:'' @ metrics_operationName m, ''model:'' @ metrics_modelName m,
               ''status:success''] Count,
            SendMetric ''poseshift.llm.request.latency''
              (clock env (Suc (ticks w)) - metrics_startTime m)
              [''operation:'' @ metrics_operationName m, ''model:'' @ metrics_modelName m] Gauge,
            SendLog (''LLM generation completed: '' @ metrics_operationName m) Info
              [(''operation'', JString (metrics_operationName m)),
               (''model'', JString (metrics_modelName m)),
               (''latency_ms'', JNumber (clock env (Suc (ticks w)) - metrics_startTime m)),
               (''status'', JString ''success'')]]"
  using assms
  by (simp_all add: try_block_def Let_def split_def success_result_def split: outcome.splits)

lemma try_block_succeeded_spans:
  assumes "fst (analysis_run env k p) = Inr (d, pd)" and "fst (image_run env k u p d pd) = Inr img"
    and "ps < length (spans w)"
  shows "length (spans (snd (try_block env k u p st m ps w))) = length (spans w) + 2"
    and "spans (snd (try_block env k u p st m ps w)) ! ps =
           (spans w ! ps)\<lparr>tags := AList.update ''llm.latency_ms'' (JNumber (clock env (ticks w) - st))
                                     (AList.update ''llm.status'' (JString ''success'')
                                        (tags (spans w ! ps)))\<rparr>"
  using assms
  by (simp_all add: try_block_def Let_def split_def nth_append setTag_nth finish_nth
        split: outcome.splits)

text \<open>The end of the \<open>try\<close> block after two successful steps, by what becomes of the requests.\<close>

lemma try_block_delivered:
  assumes "fst (analysis_run env k p) = Inr (d, pd)" and "fst (image_run env k u p d pd) = Inr img"
    and "truthy (DD_API_KEY env) \<longrightarrow>
             (\<forall>request. header_DD_API_KEY request = the (DD_API_KEY env) \<longrightarrow>
                answered (https_request env request))"
  shows "fst (try_block env k u p st m ps w) = Resolved (success_result img d pd)"
    and "http_requests (events (snd (try_block env k u p st m ps w))) = http_requests (events w) @
           (if truthy (DD_API_KEY env)
            then [metric_request env ''poseshift.llm.request.count'' 1
                    [''operation:'' @ metrics_operationName m, ''model:'' @ metrics_modelName m,
                     ''status:success''] Count (clock env (Suc (Suc (ticks w)))),
                  metric_request env ''poseshift.llm.request.latency''
                    (clock env (Suc (ticks w)) - metrics_startTime m)
                    [''operation:'' @ metrics_operationName m, ''model:'' @ metrics_modelName m]
                    Gauge (clock env (Suc (Suc (Suc (ticks w))))),
                  log_request env (''LLM generation completed: '' @ metrics_operationName m) Info
                    [(''operation'', JString (metrics_operationName m)),
                     (''model'', JString (metrics_modelName m)),
                     (''latency_ms'', JNumber (clock env (Suc (ticks w)) - metrics_startTime m)),
                     (''status'', JString ''success'')]]
            else [])"
  using assms(1,2)
  by (simp_all add: try_block_def Let_def split_def success_result_def
        recordSuccess_delivered[OF assms(3)])

lemma try_block_refused:
  assumes "fst (analysis_run env k p) = Inr (d, pd)" and "fst (image_run env k u p d pd) = Inr img"
    and "truthy (DD_API_KEY env)"
    and "\<forall>request. header_DD_API_KEY request = the (DD_API_KEY env) \<longrightarrow>
           https_request env request = Throws e"
  shows "fst (try_block env k u p st m ps w) = Rejected e"
    and "http_requests (events (snd (try_block env k u p st m ps w))) = http_requests (events w)"
  using assms(1,2)
  by (simp_all add: try_block_def Let_def split_def recordSuccess_refused[OF assms(3,4)])

lemma try_block_truncated:
  assumes "fst (analysis_run env k p) = Inr (d, pd)" and "fst (image_run env k u p d pd) = Inr img"
    and "truthy (DD_API_KEY env)" and "\<forall>request. https_request env request = Truncated"
  shows "fst (try_block env k u p st m ps w) = Pending"
  using assms(1,2)
  by (simp add: try_block_def Let_def split_def recordSuccess_truncated[OF assms(3,4)])

text \<open>The \<open>catch\<close> block.\<close>

lemma catch_block_fields:
  "reports (events (snd (catch_block env st m ps err w))) =
     reports (events w) @ [RecordError (errorMessage_of err)]"
  "invocations nm (events (snd (catch_block env st m ps err w))) = invocations nm (events w)"
  "length (spans (snd (catch_block env st m ps err w))) = length (spans w)"
  by (simp_all add: catch_block_def Let_def split_def split: outcome.splits)

lemma catch_block_sends:
  "sends (events (snd (catch_block env st m ps err w))) = sends (events w) @
     [SendMetric ''poseshift.llm.request.count'' 1
        [''operation:'' @ metrics_operationName m, ''model:'' @ metrics_modelName m,
         ''status:error''] Count,
      SendMetric ''poseshift.llm.error.count'' 1
        [''operation:'' @ metrics_operationName m, ''model:'' @ metrics_modelName m] Count,
      SendLog (''LLM generation failed: '' @ metrics_operationName m @ '' - '' @ errorMessage_of err)
        Failure
        [(''operation'', JString (metrics_operationName m)),
         (''model'', JString (metrics_modelName m)),
         (''latency_ms'', JNumber (clock env (Suc (ticks w)) - metrics_startTime m)),
         (''status'', JString ''error''),
         (''error'', JString (errorMessage_of err))]]"
  by (simp add: catch_block_def Let_def split_def split: outcome.splits)

lemma catch_block_span:
  "ps < length (spans w) \<Longrightarrow>
   spans (snd (catch_block env st m ps err w)) ! ps =
     (spans w ! ps)\<lparr>tags := AList.update ''error.message'' (JString (errorMessage_of err))
                               (AList.update ''error'' (JBool True)
                                  (AList.update ''llm.status'' (JString ''error'')
                                     (tags (spans w ! ps))))\<rparr>"
  by (simp add: catch_block_def Let_def split_def setTag_nth split: outcome.splits)

lemma catch_block_delivered:
  assumes "truthy (DD_API_KEY env) \<longrightarrow>
             (\<forall>request. header_DD_API_KEY request = the (DD_API_KEY env) \<longrightarrow>
                answered (https_request env request))"
  shows "fst (catch_block env st m ps err w) = Resolved (failure_result err)"
    and "length (http_requests (events (snd (catch_block env st m ps err w)))) =
           length (http_requests (events w)) + (if truthy (DD_API_KEY env) then 3 else 0)"
  by (simp_all add: catch_block_def Let_def split_def failure_result_def
        recordError_delivered[OF assms])

lemma catch_block_refused:
  assumes "truthy (DD_API_KEY env)"
    and "\<forall>request. header_DD_API_KEY request = the (DD_API_KEY env) \<longrightarrow>
           https_request env request = Throws e"
  shows "fst (catch_block env st m ps err w) = Rejected e"
    and "http_requests (events (snd (catch_block env st m ps err w))) = http_requests (events w)"
  by (simp_all add: catch_block_def Let_def split_def recordError_refused[OF assms])

lemma catch_block_truncated:
  assumes "truthy (DD_API_KEY env)" and "\<forall>request. https_request env request = Truncated"
  shows "fst (catch_block env st m ps err w) = Pending"
  by (simp add: catch_block_def Let_def split_def recordError_truncated[OF assms])

text \<open>Whatever becomes of the requests, a result that is returned has one of two shapes.\<close>

lemma try_block_resolved:
  "fst (try_block env k u p st m ps w) = Resolved result \<Longrightarrow>
   \<exists>img d pd. result = success_result img d pd"
  by (auto simp: try_block_def Let_def split_def success_result_def
        split: sum.splits outcome.splits)

lemma catch_block_resolved:
  "fst (catch_block env st m ps err w) = Resolved result \<Longrightarrow> result = failure_result err"
  by (auto simp: catch_block_def Let_def split_def failure_result_def split: outcome.splits)

section \<open>The pipeline, case by case\<close>

lemma before_try_fields [simp]:
  "spans (before_try env) =
     [\<lparr>span_name = ''llm.full_generation'', childOf = None,
       tags = [(''llm.provider'', JString ''google''), (''llm.model'', JString ''gemini-pipeline''),
               (''llm.request_type'', JString ''pose_transformation'')],
       finish_count = 0\<rparr>]"
  "ticks (before_try env) = 2"
  "reports (events (before_try env)) = []"
  "sends (events (before_try env)) = []"
  "http_requests (events (before_try env)) = []"
  "invocations nm (events (before_try env)) = []"
  by (simp_all add: before_try_def)

lemma the_metrics_fields [simp]:
  "metrics_operationName (the_metrics env) = ''full_generation''"
  "metrics_modelName (the_metrics env) = ''gemini-pipeline''"
  "metrics_startTime (the_metrics env) = clock env (Suc 0)"
  by (simp_all add: the_metrics_def)

lemma generateWithPose_unfold:
  "generateWithPose env k u p =
     (let tb = try_block env k u p (clock env 0) (the_metrics env) 0 (before_try env);
          cb = (case fst tb of
                  Rejected err \<Rightarrow> catch_block env (clock env 0) (the_metrics env) 0 err (snd tb)
                | settled \<Rightarrow> (settled, snd tb))
      in case fst cb of
           Pending \<Rightarrow> (Pending, snd cb)
         | settled \<Rightarrow> (settled, finish 0 (snd cb)))"
  by (simp add: generateWithPose_def Let_def split_def before_try_def the_metrics_def
        cong: outcome.case_cong)

text \<open>When every request is answered, or there is no API key.\<close>

lemma generateWithPose_analysis_failed:
  assumes "fst (analysis_run env k p) = Inl e"
    and "truthy (DD_API_KEY env) \<longrightarrow>
             (\<forall>request. header_DD_API_KEY request = the (DD_API_KEY env) \<longrightarrow>
                answered (https_request env request))"
  shows "fst (generateWithPose env k u p) = Resolved (failure_result e)"
    and "reports (events (snd (generateWithPose env k u p))) = [RecordError (errorMessage_of e)]"
    and "invocations ''generatePoseImage'' (events (snd (generateWithPose env k u p))) = []"
    and "invocations ''generatePoseDescription'' (events (snd (generateWithPose env k u p))) =
           invocations ''generatePoseDescription'' (snd (analysis_run env k p))"
    and "length (http_requests (events (snd (generateWithPose env k u p)))) =
           (if truthy (DD_API_KEY env) then 3 else 0)"
    and "span_name (parent_span (snd (generateWithPose env k u p))) = ''llm.full_generation''"
    and "finish_count (parent_span (snd (generateWithPose env k u p))) = 1"
    and "tag (parent_span (snd (generateWithPose env k u p))) ''llm.status'' =
           Some (JString ''error'')"
  using assms(1)
  by (simp_all add: generateWithPose_unfold Let_def try_block_analysis_failed
        try_block_analysis_failed_spans catch_block_fields catch_block_span finish_nth tag_def
        parent_span_def catch_block_delivered[OF assms(2)])

lemma generateWithPose_image_failed:
  assumes "fst (analysis_run env k p) = Inr (d, pd)" and "fst (image_run env k u p d pd) = Inl e"
    and "truthy (DD_API_KEY env) \<longrightarrow>
             (\<forall>request. header_DD_API_KEY request = the (DD_API_KEY env) \<longrightarrow>
                answered (https_request env request))"
  shows "fst (generateWithPose env k u p) = Resolved (failure_result e)"
    and "reports (events (snd (generateWithPose env k u p))) = [RecordError (errorMessage_of e)]"
    and "length (http_requests (events (snd (generateWithPose env k u p)))) =
           (if truthy (DD_API_KEY env) then 3 else 0)"
    and "span_name (parent_span (snd (generateWithPose env k u p))) = ''llm.full_generation''"
    and "finish_count (parent_span (snd (generateWithPose env k u p))) = 1"
    and "tag (parent_span (snd (generateWithPose env k u p))) ''llm.status'' =
           Some (JString ''error'')"
  using assms(1,2)
  by (simp_all add: generateWithPose_unfold Let_def try_block_image_failed
        try_block_image_failed_spans catch_block_fields catch_block_span finish_nth tag_def
        parent_span_def catch_block_delivered[OF assms(3)])

lemma generateWithPose_succeeded:
  assumes "fst (analysis_run env k p) = Inr (d, pd)" and "fst (image_run env k u p d pd) = Inr img"
    and "truthy (DD_API_KEY env) \<longrightarrow>
             (\<forall>request. header_DD_API_KEY request = the (DD_API_KEY env) \<longrightarrow>
                answered (https_request env request))"
  shows "fst (generateWithPose env k u p) = Resolved (success_result img d pd)"
    and "reports (events (snd (generateWithPose env k u p))) = [RecordSuccess]"
    and "http_requests (events (snd (generateWithPose env k u p))) =
           (if truthy (DD_API_KEY env)
            then [metric_request env ''poseshift.llm.request.count'' 1
                    [''operation:full_generation'', ''model:gemini-pipeline'', ''status:success'']
                    Count (clock env 4),
                  metric_request env ''poseshift.llm.request.latency'' (clock env 3 - clock env 1)
                    [''operation:full_generation'', ''model:gemini-pipeline''] Gauge (clock env 5),
                  log_request env ''LLM generation completed: full_generation'' Info
                    [(''operation'', JString ''full_generation''),
                     (''model'', JString ''gemini-pipeline''),
                     (''latency_ms'', JNumber (clock env 3 - clock env 1)),
                     (''status'', JString ''success'')]]
            else [])"
    and "span_name (parent_span (snd (generateWithPose env k u p))) = ''llm.full_generation''"
    and "finish_count (parent_span (snd (generateWithPose env k u p))) = 1"
    and "tag (parent_span (snd (generateWithPose env k u p))) ''llm.status'' =
           Some (JString ''success'')"
    and "invocations nm (events (snd (generateWithPose env k u p))) =
           invocations nm (snd (analysis_run env k p)) @
           invocations nm (snd (image_run env k u p d pd))"
    and "sends (events (snd (generateWithPose env k u p))) =
           [SendMetric ''poseshift.llm.request.count'' 1
              [''operation:full_generation'', ''model:gemini-pipeline'', ''status:success''] Count,
            SendMetric ''poseshift.llm.request.latency'' (clock env 3 - clock env 1)
              [''operation:full_generation'', ''model:gemini-pipeline''] Gauge,
            SendLog ''LLM generation completed: full_generation'' Info
              [(''operation'', JString ''full_generation''),
               (''model'', JString ''gemini-pipeline''),
               (''latency_ms'', JNumber (clock env 3 - clock env 1)),
               (''status'', JString ''success'')]]"
  using assms(1,2)
  by (simp_all add: generateWithPose_unfold Let_def try_block_succeeded
        try_block_succeeded_spans finish_nth tag_def parent_span_def numeral_3_eq_3
        try_block_delivered[OF assms] eval_nat_numeral)

text \<open>When \<open>https.request\<close> throws \<open>e\<close> for every request that carries the API key.\<close>

lemma generateWithPose_analysis_failed_refused:
  assumes "fst (analysis_run env k p) = Inl e0"
    and "truthy (DD_API_KEY env)"
    and "\<forall>request. header_DD_API_KEY request = the (DD_API_KEY env) \<longrightarrow>
           https_request env request = Throws e"
  shows "fst (generateWithPose env k u p) = Rejected e"
    and "reports (events (snd (generateWithPose env k u p))) = [RecordError (errorMessage_of e0)]"
    and "invocations ''generatePoseImage'' (events (snd (generateWithPose env k u p))) = []"
    and "invocations ''generatePoseDescription'' (events (snd (generateWithPose env k u p))) =
           invocations ''generatePoseDescription'' (snd (analysis_run env k p))"
    and "http_requests (events (snd (generateWithPose env k u p))) = []"
    and "finish_count (parent_span (snd (generateWithPose env k u p))) = 1"
    and "tag (parent_span (snd (generateWithPose env k u p))) ''llm.status'' =
           Some (JString ''error'')"
  using assms(1)
  by (simp_all add: generateWithPose_unfold Let_def try_block_analysis_failed
        try_block_analysis_failed_spans catch_block_fields catch_block_span finish_nth tag_def
        parent_span_def catch_block_refused[OF assms(2,3)])

lemma generateWithPose_succeeded_refused:
  assumes "fst (analysis_run env k p) = Inr (d, pd)" and "fst (image_run env k u p d pd) = Inr img"
    and "truthy (DD_API_KEY env)"
    and "\<forall>request. header_DD_API_KEY request = the (DD_API_KEY env) \<longrightarrow>
           https_request env request = Throws e"
  shows "fst (generateWithPose env k u p) = Rejected e"
    and "reports (events (snd (generateWithPose env k u p))) =
           [RecordSuccess, RecordError (errorMessage_of e)]"
    and "http_requests (events (snd (generateWithPose env k u p))) = []"
    and "finish_count (parent_span (snd (generateWithPose env k u p))) = 1"
    and "tag (parent_span (snd (generateWithPose env k u p))) ''llm.status'' =
           Some (JString ''error'')"
  using assms(1,2)
  by (simp_all add: generateWithPose_unfold Let_def try_block_succeeded
        try_block_succeeded_spans catch_block_fields catch_block_span finish_nth tag_def
        parent_span_def try_block_refused[OF assms] catch_block_refused[OF assms(3,4)])

text \<open>When the connection is lost in the middle of every response.\<close>

lemma generateWithPose_succeeded_truncated:
  assumes "fst (analysis_run env k p) = Inr (d, pd)" and "fst (image_run env k u p d pd) = Inr img"
    and "truthy (DD_API_KEY env)" and "\<forall>request. https_request env request = Truncated"
  shows "fst (generateWithPose env k u p) = Pending"
    and "reports (events (snd (generateWithPose env k u p))) = [RecordSuccess]"
    and "finish_count (parent_span (snd (generateWithPose env k u p))) = 0"
  using assms(1,2)
  by (simp_all add: generateWithPose_unfold Let_def try_block_succeeded
        try_block_succeeded_spans parent_span_def try_block_truncated[OF assms])

lemma generateWithPose_analysis_failed_truncated:
  assumes "fst (analysis_run env k p) = Inl e0"
    and "truthy (DD_API_KEY env)" and "\<forall>request. https_request env request = Truncated"
  shows "fst (generateWithPose env k u p) = Pending"
    and "finish_count (parent_span (snd (generateWithPose env k u p))) = 0"
  using assms(1)
  by (simp_all add: generateWithPose_unfold Let_def try_block_analysis_failed
        try_block_analysis_failed_spans catch_block_fields catch_block_span parent_span_def
        catch_block_truncated[OF assms(2,3)])

text \<open>
  When every request is answered, or there is no API key, the result of the pipeline is
  decided by the outcomes of its two steps.
\<close>

lemma generateWithPose_result:
  assumes "truthy (DD_API_KEY env) \<longrightarrow>
             (\<forall>request. header_DD_API_KEY request = the (DD_API_KEY env) \<longrightarrow>
                answered (https_request env request))"
  shows "fst (generateWithPose env k u p) =
     (case fst (analysis_run env k p) of
        Inl e \<Rightarrow> Resolved (failure_result e)
      | Inr (d, pd) \<Rightarrow>
          (case fst (image_run env k u p d pd) of
             Inl e \<Rightarrow> Resolved (failure_result e)
           | Inr img \<Rightarrow> Resolved (success_result img d pd)))"
  by (auto simp: generateWithPose_analysis_failed(1)[OF _ assms]
        generateWithPose_image_failed(1)[OF _ _ assms]
        generateWithPose_succeeded(1)[OF _ _ assms] split: sum.splits)

text \<open>Whatever becomes of the requests, a result that the pipeline returns has one of two shapes.\<close>

lemma generateWithPose_resolved:
  assumes "fst (generateWithPose env k u p) = Resolved result"
  shows "(\<exists>img d pd. result = success_result img d pd) \<or> (\<exists>e. result = failure_result e)"
proof (cases "fst (try_block env k u p (clock env 0) (the_metrics env) 0 (before_try env))")
  case (Resolved r)
  with assms have "result = r"
    by (simp add: generateWithPose_unfold Let_def)
  with try_block_resolved[OF Resolved] show ?thesis by simp
next
  case (Rejected err)
  with assms have "fst (catch_block env (clock env 0) (the_metrics env) 0 err
      (snd (try_block env k u p (clock env 0) (the_metrics env) 0 (before_try env)))) =
      Resolved result"
    by (simp add: generateWithPose_unfold Let_def split: outcome.splits)
  from catch_block_resolved[OF this] show ?thesis by blast
next
  case Pending
  with assms show ?thesis
    by (simp add: generateWithPose_unfold Let_def)
qed

section \<open>Claims about \<open>retryOperation\<close>\<close>

text \<open>
  Claim C1. For every operation and every \<open>maxAttempts = N \<ge> 1\<close>, if the operation fails
  on every attempt, \<open>retryOperation\<close> invokes it exactly \<open>N\<close> times (with the attempt
  numbers 1 to \<open>N\<close>), waits the fixed \<open>delayMs\<close> only between consecutive attempts
  (\<open>N - 1\<close> delays, none after the last attempt, so a single attempt and no delay for
  \<open>N = 1\<close>), and then rejects with the very outcome of attempt \<open>N\<close>.
\<close>

theorem retryOperation_all_attempts_fail:
  assumes "1 \<le> N" and "\<forall>k. 1 \<le> k \<and> k \<le> N \<longrightarrow> isl (operation k)"
  shows "fst (retryOperation operation name N d) = operation N \<and>
         invocations name (snd (retryOperation operation name N d)) = [1..N] \<and>
         waits (snd (retryOperation operation name N d)) = replicate (nat (N - 1)) d \<and>
         calls_and_waits (snd (retryOperation operation name N d)) =
           concat (map (\<lambda>k. if k < N then [Invoke name k, Wait d] else [Invoke name k]) [1..N])"
  unfolding retryOperation_def
  using retry_loop_all_fail[OF assms(2) assms(1), of name d Undefined "[]"]
  by simp

theorem retryOperation_all_attempts_fail_witness:
  "(1::int) \<le> 3 \<and> isl (fails_thrice 1) \<and> isl (fails_thrice 2) \<and> isl (fails_thrice 3) \<and>
   fst (retryOperation fails_thrice ''op'' 3 2000) = Inl (Error ''third'') \<and>
   invocations ''op'' (snd (retryOperation fails_thrice ''op'' 3 2000)) = [1, 2, 3] \<and>
   waits (snd (retryOperation fails_thrice ''op'' 3 2000)) = [2000, 2000] \<and>
   calls_and_waits (snd (retryOperation fails_thrice ''op'' 3 2000))
     = [Invoke ''op'' 1, Wait 2000, Invoke ''op'' 2, Wait 2000, Invoke ''op'' 3]"
proof -
  have h: "\<forall>k. 1 \<le> k \<and> k \<le> 3 \<longrightarrow> isl (fails_thrice k)"
    by (simp add: fails_thrice_def)
  have r: "replicate (nat (3 - 1)) (2000::int) = [2000, 2000]"
    by (simp add: numeral_2_eq_2)
  have t: "fails_thrice 3 = Inl (Error ''third'')"
    by (simp add: fails_thrice_def)
  show ?thesis
    using retryOperation_all_attempts_fail[of 3 fails_thrice "''op''" 2000] h
    unfolding upto_1_3 r t by (simp add: fails_thrice_def)
qed

text \<open>
  Claim C2. For every operation and \<open>maxAttempts = N\<close>, if the operation succeeds on
  attempt \<open>K \<le> N\<close> (after failing on the attempts before it), \<open>retryOperation\<close> invokes it
  exactly \<open>K\<close> times, makes no further attempt (the call of attempt \<open>K\<close> is the last
  effect) and returns the result of that attempt.
\<close>

theorem retryOperation_succeeds_on_attempt:
  assumes "1 \<le> K" and "K \<le> N" and "\<forall>k. 1 \<le> k \<and> k < K \<longrightarrow> isl (operation k)"
    and "operation K = Inr v"
  shows "fst (retryOperation operation name N d) = Inr v \<and>
         invocations name (snd (retryOperation operation name N d)) = [1..K] \<and>
         waits (snd (retryOperation operation name N d)) = replicate (nat (K - 1)) d \<and>
         calls_and_waits (snd (retryOperation operation name N d)) =
           concat (map (\<lambda>k. [Invoke name k, Wait d]) [1..K - 1]) @ [Invoke name K]"
  unfolding retryOperation_def
  using retry_loop_first_success[OF assms(3) assms(1) assms(2) assms(4), of name d Undefined "[]"]
  by simp

theorem retryOperation_succeeds_on_attempt_witness:
  "(1::int) \<le> 2 \<and> (2::int) \<le> 3 \<and> isl (second_time_lucky 1) \<and>
   second_time_lucky 2 = Inr ''done'' \<and>
   fst (retryOperation second_time_lucky ''op'' 3 2000) = Inr ''done'' \<and>
   invocations ''op'' (snd (retryOperation second_time_lucky ''op'' 3 2000)) = [1, 2] \<and>
   waits (snd (retryOperation second_time_lucky ''op'' 3 2000)) = [2000] \<and>
   calls_and_waits (snd (retryOperation second_time_lucky ''op'' 3 2000))
     = [Invoke ''op'' 1, Wait 2000, Invoke ''op'' 2]"
proof -
  have h: "\<forall>k. 1 \<le> k \<and> k < 2 \<longrightarrow> isl (second_time_lucky k)"
    by (simp add: second_time_lucky_def)
  have s: "second_time_lucky 2 = Inr ''done''"
    by (simp add: second_time_lucky_def)
  have u: "[1..2 - 1] = [1::int]"
    by (simp add: upto_rec1)
  show ?thesis
    using retryOperation_succeeds_on_attempt[of 2 3 second_time_lucky "''done''" "''op''" 2000] h s
    unfolding upto_1_2 u by (simp add: second_time_lucky_def)
qed

text \<open>
  Claim C9. If \<open>retryOperation\<close> is called with \<open>maxAttempts \<le> 0\<close>, the operation is never
  invoked, not even once, and the function rejects with the value of the uninitialised
  \<open>lastError\<close>, which is \<open>undefined\<close>; the only effect is the line that all attempts failed.
\<close>

theorem retryOperation_no_attempts:
  assumes "N \<le> 0"
  shows "retryOperation operation name N d = (Inl Undefined, [line_all_failed name N]) \<and>
         invocations name (snd (retryOperation operation name N d)) = [] \<and>
         waits (snd (retryOperation operation name N d)) = []"
  using assms unfolding retryOperation_def
  by (simp add: retry_loop_exhausted)

theorem retryOperation_no_attempts_witness:
  "(0::int) \<le> 0 \<and>
   retryOperation second_time_lucky ''op'' 0 2000 = (Inl Undefined, [line_all_failed ''op'' 0]) \<and>
   invocations ''op'' (snd (retryOperation second_time_lucky ''op'' 0 2000)) = []"
  using retryOperation_no_attempts[of 0 second_time_lucky "''op''" 2000] by simp

section \<open>The two steps at the fixed three attempts\<close>

lemma analysis_run_first_attempt:
  assumes "analysis_operation env k p 1 = Inr v"
  shows "fst (analysis_run env k p) = Inr v"
    and "invocations ''generatePoseDescription'' (snd (analysis_run env k p)) = [1]"
  using assms
  by (simp_all add: analysis_run_def retryOperation_def retry_loop_success MAX_RETRIES_def)

lemma image_run_first_attempt:
  assumes "image_operation env k u p d pd 1 = Inr v"
  shows "fst (image_run env k u p d pd) = Inr v"
    and "invocations ''generatePoseImage'' (snd (image_run env k u p d pd)) = [1]"
  using assms
  by (simp_all add: image_run_def retryOperation_def retry_loop_success MAX_RETRIES_def)



lemma analysis_run_exhausted:
  assumes "\<forall>attempt. 1 \<le> attempt \<and> attempt \<le> MAX_RETRIES \<longrightarrow>
             isl (analysis_operation env k p attempt)"
  shows "fst (analysis_run env k p) = analysis_operation env k p MAX_RETRIES"
    and "invocations ''generatePoseDescription'' (snd (analysis_run env k p)) = [1, 2, 3]"
proof -
  have one: "1 \<le> MAX_RETRIES" by (simp add: MAX_RETRIES_def)
  note r = retry_loop_all_fail[OF assms one,
      of "''generatePoseDescription''" RETRY_DELAY_MS Undefined "[]"]
  show "fst (analysis_run env k p) = analysis_operation env k p MAX_RETRIES"
    using r by (simp add: analysis_run_def retryOperation_def)
  show "invocations ''generatePoseDescription'' (snd (analysis_run env k p)) = [1, 2, 3]"
    using r by (simp add: analysis_run_def retryOperation_def MAX_RETRIES_def upto_1_3)
qed

lemma image_run_exhausted:
  assumes "\<forall>attempt. 1 \<le> attempt \<and> attempt \<le> MAX_RETRIES \<longrightarrow>
             isl (image_operation env k u p d pd attempt)"
  shows "fst (image_run env k u p d pd) = image_operation env k u p d pd MAX_RETRIES"
    and "invocations ''generatePoseImage'' (snd (image_run env k u p d pd)) = [1, 2, 3]"
proof -
  have one: "1 \<le> MAX_RETRIES" by (simp add: MAX_RETRIES_def)
  note r = retry_loop_all_fail[OF assms one,
      of "''generatePoseImage''" RETRY_DELAY_MS Undefined "[]"]
  show "fst (image_run env k u p d pd) = image_operation env k u p d pd MAX_RETRIES"
    using r by (simp add: image_run_def retryOperation_def)
  show "invocations ''generatePoseImage'' (snd (image_run env k u p d pd)) = [1, 2, 3]"
    using r by (simp add: image_run_def retryOperation_def MAX_RETRIES_def upto_1_3)
qed

section \<open>The example environments at work\<close>

lemma trim_example: "trim example_text = example_json"
  by (simp add: trim_def is_whitespace_def example_text_def example_json_def units_def)

lemma example_text_truthy [simp]: "example_text \<noteq> []"
  by (simp add: example_text_def units_def)

lemma number_string_example:
  "number_string 403 = ''403''" "number_string 0 = ''0''" "number_string (- 2000) = ''-2000''"
  by code_simp+

lemma formattedDescription_example:
  "formattedDescription example_pose =
     units ''- **Overall:** balanced\<newline>- **Head:** tilted\<newline>- **Torso:** upright\<newline>- **Arms:**\<newline>  - Left: raised\<newline>  - Right: lowered\<newline>- **Legs:**\<newline>  - Left: bent\<newline>  - Right: straight''"
  by (simp add: formattedDescription_def example_pose_def trim_def is_whitespace_def units_def)

lemma region_concatenation_example:
  "region_concatenation example_pose = units ''tilteduprightraisedloweredbentstraightbalanced''"
  by (simp add: region_concatenation_def example_pose_def units_def)

lemma description_differs:
  "formattedDescription example_pose \<noteq> region_concatenation example_pose"
  by (simp add: formattedDescription_example region_concatenation_example units_def)

text \<open>\<open>trim\<close> also removes the white space that is not ASCII.\<close>

lemma trim_unicode_example:
  "trim ([0xFEFF, 0xA0] @ units ''pose'' @ [0x2028, 0x3000, 0x0A]) = units ''pose''"
  by (simp add: trim_def is_whitespace_def units_def)

lemma example_env_fields [simp]:
  "process_env (example_env vs h r) = vs"
  "https_request (example_env vs h r) = h"
  "generateContent (example_env vs h r) = r"
  "JSON_parse (example_env vs h r) = example_parse"
  "clock (example_env vs h r) n = 1700000000000 + 250 * int n"
  by (simp_all add: example_env_def)

lemma example_keys [simp]:
  "\<not> truthy (DD_API_KEY (example_env no_variables h r))"
  "truthy (DD_API_KEY (example_env with_api_key h r))"
  "truthy (DD_API_KEY (example_env with_bad_key h r))"
  "the (DD_API_KEY (example_env with_bad_key h r)) = ''0123456789abcdef\<newline>''"
  "the (DD_API_KEY (example_env with_api_key h r)) = ''0123456789abcdef''"
  by (simp_all add: DD_API_KEY_def no_variables_def with_api_key_def with_bad_key_def)

lemma example_answers [simp]:
  "answered (accepting request)" "answered (refusing request)"
  by (simp_all add: accepting_def refusing_def)

lemma strict_headers_refuse_bad_key:
  "\<forall>request. header_DD_API_KEY request = the (DD_API_KEY (example_env with_bad_key strict_headers r))
     \<longrightarrow> https_request (example_env with_bad_key strict_headers r) request =
           Throws invalid_header_error"
  by (simp add: strict_headers_def)

lemma strict_headers_accept_good_key:
  "strict_headers (metric_request (example_env with_api_key strict_headers r) n v ts ty now) =
     Response 202 ''{}''"
  by (simp add: strict_headers_def DD_API_KEY_def with_api_key_def)

lemma helpful_analysis:
  "analysis_operation (example_env vs h helpful_remote) k p attempt =
     Inr (formattedDescription example_pose, example_pose)"
  by (simp add: analysis_operation_def helpful_remote_def analysis_request_def trim_example
        example_parse_def)

lemma image_response_image: "image_of_response image_response = Inr ''aW1hZ2U=''"
  by (simp add: image_of_response_def image_response_def)

lemma helpful_image:
  "image_operation (example_env vs h helpful_remote) k u p d pd attempt = Inr ''aW1hZ2U=''"
  by (simp add: image_operation_def helpful_remote_def image_request_def image_response_image)

lemma silent_analysis:
  "analysis_operation (example_env vs h silent_remote) k p attempt = Inl empty_description_error"
  by (simp add: analysis_operation_def silent_remote_def)

lemma helpful_steps:
  "fst (analysis_run (example_env vs h helpful_remote) k p) =
     Inr (formattedDescription example_pose, example_pose)"
  "fst (image_run (example_env vs h helpful_remote) k u p d pd) = Inr ''aW1hZ2U=''"
  by (simp_all add: analysis_run_first_attempt(1)[OF helpful_analysis]
        image_run_first_attempt(1)[OF helpful_image])

lemma silent_steps:
  "fst (analysis_run (example_env vs h silent_remote) k p) = Inl empty_description_error"
  "invocations ''generatePoseDescription'' (snd (analysis_run (example_env vs h silent_remote) k p))
     = [1, 2, 3]"
  by (simp_all add: analysis_run_exhausted silent_analysis)

lemma evasive_analysis:
  "analysis_operation (example_env vs h evasive_remote) k p attempt =
     Inr (formattedDescription example_pose, example_pose)"
  by (simp add: analysis_operation_def evasive_remote_def analysis_request_def trim_example
        example_parse_def)

lemma evasive_image:
  "image_operation (example_env vs h evasive_remote) k u p d pd attempt =
     image_of_response empty_candidates_response"
  by (simp add: image_operation_def evasive_remote_def image_request_def)

lemma empty_description_message:
  "errorMessage_of empty_description_error =
     ''Pose analysis failed. The model did not return a description.''"
  by (simp add: empty_description_error_def)



section \<open>Claims about the pipeline\<close>

text \<open>
  When every request of the telemetry is answered, or there is no API key, a pose analysis
  that fails on each of its three attempts ends the pipeline as the specification says:
  \<open>generatePoseImage\<close> is never invoked, the parent span is finished once and tagged
  \<open>error\<close>, one error report is made, and the function returns \<open>{success: false, error: m}\<close>
  with the message \<open>m\<close> of the failure of the last attempt.
\<close>

lemma analysis_failure_when_requests_are_answered:
  assumes "\<forall>attempt. 1 \<le> attempt \<and> attempt \<le> MAX_RETRIES \<longrightarrow>
             isl (analysis_operation env apiKey poseImage attempt)"
    and "truthy (DD_API_KEY env) \<longrightarrow>
             (\<forall>request. header_DD_API_KEY request = the (DD_API_KEY env) \<longrightarrow>
                answered (https_request env request))"
  shows "invocations ''generatePoseDescription''
           (events (snd (generateWithPose env apiKey userImage poseImage))) = [1, 2, 3] \<and>
         invocations ''generatePoseImage''
           (events (snd (generateWithPose env apiKey userImage poseImage))) = [] \<and>
         finish_count (parent_span (snd (generateWithPose env apiKey userImage poseImage))) = 1 \<and>
         tag (parent_span (snd (generateWithPose env apiKey userImage poseImage))) ''llm.status'' =
           Some (JString ''error'') \<and>
         reports (events (snd (generateWithPose env apiKey userImage poseImage))) =
           [RecordError (errorMessage_of (projl (analysis_operation env apiKey poseImage MAX_RETRIES)))] \<and>
         fst (generateWithPose env apiKey userImage poseImage) =
           Resolved \<lparr>success = False, generatedImage = None, poseDescription = None,
                     poseData = None,
                     error = Some (errorMessage_of
                               (projl (analysis_operation env apiKey poseImage MAX_RETRIES)))\<rparr>"
proof -
  have "isl (analysis_operation env apiKey poseImage MAX_RETRIES)"
    using assms(1) by (simp add: MAX_RETRIES_def)
  then obtain e where e: "analysis_operation env apiKey poseImage MAX_RETRIES = Inl e"
    by (cases "analysis_operation env apiKey poseImage MAX_RETRIES") auto
  have run: "fst (analysis_run env apiKey poseImage) = Inl e"
    using analysis_run_exhausted(1)[OF assms(1)] e by simp
  have calls: "invocations ''generatePoseDescription'' (snd (analysis_run env apiKey poseImage))
                 = [1, 2, 3]"
    by (rule analysis_run_exhausted(2)[OF assms(1)])
  note facts = generateWithPose_analysis_failed[OF run assms(2), of userImage]
  show ?thesis
    using facts calls e
    by (simp add: failure_result_def)
qed

text \<open>
  Claim C3, at the input where the code departs from it. The API key of the environment
  ends with a line feed, and the remote model answers each of the three analysis attempts
  with an empty text. As the claim says, \<open>generatePoseImage\<close> is never invoked, the parent
  span is finished (once) and tagged \<open>error\<close>, and the one error report carries the message
  \<open>Pose analysis failed. The model did not return a description.\<close> But \<open>https.request\<close>
  throws on the key inside the promise of \<open>sendMetric\<close>, so \<open>recordError\<close> rejects inside
  the \<open>catch\<close> block, and \<open>generateWithPose\<close> rejects with that \<open>TypeError\<close> where the claim
  has it return \<open>{success: false, error: ...}\<close>.
\<close>

theorem analysis_failure_rejects_with_bad_key:
  "analysis_operation (example_env with_bad_key strict_headers silent_remote) ''key'' pose_photo 1
     = Inl empty_description_error \<and>
   analysis_operation (example_env with_bad_key strict_headers silent_remote) ''key'' pose_photo 2
     = Inl empty_description_error \<and>
   analysis_operation (example_env with_bad_key strict_headers silent_remote) ''key'' pose_photo 3
     = Inl empty_description_error \<and>
   invocations ''generatePoseDescription''
     (events (snd (generateWithPose (example_env with_bad_key strict_headers silent_remote)
                     ''key'' user_photo pose_photo))) = [1, 2, 3] \<and>
   invocations ''generatePoseImage''
     (events (snd (generateWithPose (example_env with_bad_key strict_headers silent_remote)
                     ''key'' user_photo pose_photo))) = [] \<and>
   finish_count (parent_span (snd (generateWithPose
       (example_env with_bad_key strict_headers silent_remote) ''key'' user_photo pose_photo))) = 1 \<and>
   tag (parent_span (snd (generateWithPose
       (example_env with_bad_key strict_headers silent_remote) ''key'' user_photo pose_photo)))
     ''llm.status'' = Some (JString ''error'') \<and>
   reports (events (snd (generateWithPose (example_env with_bad_key strict_headers silent_remote)
                           ''key'' user_photo pose_photo))) =
     [RecordError ''Pose analysis failed. The model did not return a description.''] \<and>
   fst (generateWithPose (example_env with_bad_key strict_headers silent_remote)
          ''key'' user_photo pose_photo) = Rejected invalid_header_error \<and>
   fst (generateWithPose (example_env with_bad_key strict_headers silent_remote)
          ''key'' user_photo pose_photo) \<noteq>
     Resolved \<lparr>success = False, generatedImage = None, poseDescription = None, poseData = None,
               error = Some ''Pose analysis failed. The model did not return a description.''\<rparr>"
proof -
  note facts = generateWithPose_analysis_failed_refused[
      where env = "example_env with_bad_key strict_headers silent_remote" and k = "''key''"
        and p = pose_photo and u = user_photo,
      OF silent_steps(1) example_keys(3) strict_headers_refuse_bad_key]
  show ?thesis
    using facts
    by (simp add: silent_analysis silent_steps(2) empty_description_message)
qed

text \<open>
  When every request of the telemetry is answered, or there is no API key, every call of
  \<open>generateWithPose\<close> returns a result, finishes its parent span exactly once and makes
  exactly one direct report, \<open>recordSuccess\<close> or \<open>recordError\<close>; the status tag of the span,
  the report and the \<open>success\<close> flag of the result agree.
\<close>

lemma one_span_one_report_when_requests_are_answered:
  assumes "truthy (DD_API_KEY env) \<longrightarrow>
             (\<forall>request. header_DD_API_KEY request = the (DD_API_KEY env) \<longrightarrow>
                answered (https_request env request))"
  shows "\<exists>result.
     fst (generateWithPose env apiKey userImage poseImage) = Resolved result \<and>
     span_name (parent_span (snd (generateWithPose env apiKey userImage poseImage))) =
       ''llm.full_generation'' \<and>
     finish_count (parent_span (snd (generateWithPose env apiKey userImage poseImage))) = 1 \<and>
     reports (events (snd (generateWithPose env apiKey userImage poseImage))) =
       [if success result then RecordSuccess else RecordError (the (error result))] \<and>
     tag (parent_span (snd (generateWithPose env apiKey userImage poseImage))) ''llm.status'' =
       Some (JString (if success result then ''success'' else ''error''))"
proof (cases "fst (analysis_run env apiKey poseImage)")
  case (Inl e)
  show ?thesis
    using generateWithPose_analysis_failed[OF Inl assms, of userImage]
    by (simp add: failure_result_def)
next
  case (Inr v)
  obtain d pd where v: "v = (d, pd)" by (cases v)
  note a = Inr[unfolded v]
  show ?thesis
  proof (cases "fst (image_run env apiKey userImage poseImage d pd)")
    case (Inl e)
    show ?thesis
      using generateWithPose_image_failed[OF a Inl assms]
      by (simp add: failure_result_def)
  next
    case (Inr img)
    show ?thesis
      using generateWithPose_succeeded[OF a Inr assms]
      by (simp add: success_result_def)
  qed
qed

text \<open>
  Claim C4, at the input where the code departs from it. The API key of the environment
  ends with a line feed, and both steps succeed at once. The span is tagged \<open>success\<close> and
  \<open>recordSuccess\<close> is called; \<open>https.request\<close> throws on the key inside the promise of
  \<open>sendMetric\<close>, so the \<open>await\<close> of \<open>recordSuccess\<close>, which stands inside the \<open>try\<close> block,
  throws; the \<open>catch\<close> block tags the span \<open>error\<close> and calls \<open>recordError\<close>, which rejects
  as well. The call has made two direct reports where the claim has exactly one, and it
  returns no result: it rejects. The parent span is finished once.
\<close>

theorem bad_key_makes_two_reports:
  "fst (analysis_run (example_env with_bad_key strict_headers helpful_remote) ''key'' pose_photo) =
     Inr (formattedDescription example_pose, example_pose) \<and>
   fst (image_run (example_env with_bad_key strict_headers helpful_remote) ''key''
          user_photo pose_photo (formattedDescription example_pose) example_pose) =
     Inr ''aW1hZ2U='' \<and>
   reports (events (snd (generateWithPose (example_env with_bad_key strict_headers helpful_remote)
                           ''key'' user_photo pose_photo))) =
     [RecordSuccess, RecordError (errorMessage_of invalid_header_error)] \<and>
   length (reports (events (snd (generateWithPose
       (example_env with_bad_key strict_headers helpful_remote) ''key'' user_photo pose_photo)))) = 2 \<and>
   tag (parent_span (snd (generateWithPose
       (example_env with_bad_key strict_headers helpful_remote) ''key'' user_photo pose_photo)))
     ''llm.status'' = Some (JString ''error'') \<and>
   finish_count (parent_span (snd (generateWithPose
       (example_env with_bad_key strict_headers helpful_remote) ''key'' user_photo pose_photo))) = 1 \<and>
   fst (generateWithPose (example_env with_bad_key strict_headers helpful_remote)
          ''key'' user_photo pose_photo) = Rejected invalid_header_error"
proof -
  note facts = generateWithPose_succeeded_refused[
      where env = "example_env with_bad_key strict_headers helpful_remote" and k = "''key''"
        and p = pose_photo and u = user_photo,
      OF helpful_steps example_keys(3) strict_headers_refuse_bad_key]
  show ?thesis
    using facts by (simp add: helpful_steps)
qed

text \<open>
  Claim C6. Every result that \<open>generateWithPose\<close> returns has exactly one of its two
  branches populated: with \<open>success\<close> the image, the description and the pose data are
  present and the error is absent; without it the error is present and the other three
  are absent.
\<close>

theorem result_populates_one_branch:
  assumes "fst (generateWithPose env apiKey userImage poseImage) = Resolved result"
  shows "(success result \<longrightarrow>
            generatedImage result \<noteq> None \<and> poseDescription result \<noteq> None \<and>
            poseData result \<noteq> None \<and> error result = None) \<and>
         (\<not> success result \<longrightarrow>
            error result \<noteq> None \<and> generatedImage result = None \<and>
            poseDescription result = None \<and> poseData result = None)"
  using generateWithPose_resolved[OF assms]
  by (auto simp: success_result_def failure_result_def)

theorem result_populates_one_branch_witness:
  "fst (generateWithPose (example_env with_api_key refusing helpful_remote)
          ''key'' user_photo pose_photo) =
     Resolved (success_result ''aW1hZ2U='' (formattedDescription example_pose) example_pose) \<and>
   success (success_result ''aW1hZ2U='' (formattedDescription example_pose) example_pose) \<and>
   generatedImage (success_result ''aW1hZ2U='' (formattedDescription example_pose) example_pose)
     \<noteq> None \<and>
   poseDescription (success_result ''aW1hZ2U='' (formattedDescription example_pose) example_pose)
     \<noteq> None \<and>
   poseData (success_result ''aW1hZ2U='' (formattedDescription example_pose) example_pose)
     \<noteq> None \<and>
   error (success_result ''aW1hZ2U='' (formattedDescription example_pose) example_pose) = None"
proof -
  have r: "fst (generateWithPose (example_env with_api_key refusing helpful_remote)
                  ''key'' user_photo pose_photo) =
           Resolved (success_result ''aW1hZ2U='' (formattedDescription example_pose) example_pose)"
    by (simp add: generateWithPose_result helpful_steps)
  have s: "success (success_result ''aW1hZ2U='' (formattedDescription example_pose) example_pose)"
    by (simp add: success_result_def)
  show ?thesis
    using result_populates_one_branch[OF r] r s by simp
qed




section \<open>Claims about image generation\<close>

lemma first_image_payloads:
  "first_image ps = (case image_payloads ps of [] \<Rightarrow> None | d # ds \<Rightarrow> Some d)"
proof (induction ps)
  case Nil
  show ?case by simp
next
  case (Cons part rest)
  show ?case
  proof (cases "inlineData part")
    case None
    with Cons show ?thesis by simp
  next
    case (Some blob)
    with Cons show ?thesis by (cases "inline_data blob") simp_all
  qed
qed

text \<open>
  Whenever the array of candidates is absent or has an element, one attempt does what the
  specification says: it fails with \<open>NoImageReturned\<close> exactly when there is no image
  payload among the parts, and returns the first payload otherwise.
\<close>

lemma image_of_response_follows_spec:
  assumes "candidates response \<noteq> Some []"
  shows "image_of_response response = spec_image_of_response response"
proof (cases "candidates response")
  case None
  then show ?thesis
    by (simp add: image_of_response_def spec_image_of_response_def response_parts_def)
next
  case (Some cs)
  with assms obtain candidate others where cs: "cs = candidate # others"
    by (cases cs) auto
  show ?thesis
    using Some cs
    by (simp add: image_of_response_def spec_image_of_response_def response_parts_def
          first_image_payloads split: option.splits list.splits)
qed

text \<open>
  Claim C8, at the input where the code departs from it. A response whose array of
  candidates is empty has no image payload among its parts, so the claim makes the attempt
  fail with \<open>NoImageReturned\<close>; the code reads \<open>.content\<close> of the missing first candidate
  and the attempt fails with the engine's \<open>TypeError\<close> instead. When the remote model keeps
  answering the image request so, the pipeline reports the message of the \<open>TypeError\<close>.
\<close>

theorem empty_candidates_raise_TypeError:
  "image_payloads (response_parts empty_candidates_response) = [] \<and>
   spec_image_of_response empty_candidates_response = Inl no_image_error \<and>
   image_of_response empty_candidates_response = Inl undefined_content_error \<and>
   image_of_response empty_candidates_response \<noteq> spec_image_of_response empty_candidates_response \<and>
   fst (generateWithPose (example_env no_variables accepting evasive_remote)
          ''key'' user_photo pose_photo) =
     Resolved \<lparr>success = False, generatedImage = None, poseDescription = None, poseData = None,
               error = Some ''Cannot read properties of undefined (reading 'content')''\<rparr>"
proof -
  have attempt: "image_of_response empty_candidates_response = Inl undefined_content_error"
    by (simp add: image_of_response_def empty_candidates_response_def)
  have spec: "spec_image_of_response empty_candidates_response = Inl no_image_error"
    by (simp add: spec_image_of_response_def response_parts_def empty_candidates_response_def)
  have none: "image_payloads (response_parts empty_candidates_response) = []"
    by (simp add: response_parts_def empty_candidates_response_def)
  have differ: "undefined_content_error \<noteq> no_image_error"
    by (simp add: undefined_content_error_def no_image_error_def)
  have a: "fst (analysis_run (example_env no_variables accepting evasive_remote) ''key'' pose_photo)
             = Inr (formattedDescription example_pose, example_pose)"
    by (rule analysis_run_first_attempt(1)[OF evasive_analysis])
  have "\<forall>k. 1 \<le> k \<and> k \<le> MAX_RETRIES \<longrightarrow>
          isl (image_operation (example_env no_variables accepting evasive_remote) ''key''
                 user_photo pose_photo (formattedDescription example_pose) example_pose k)"
    by (simp add: evasive_image attempt)
  then have i: "fst (image_run (example_env no_variables accepting evasive_remote) ''key''
                       user_photo pose_photo (formattedDescription example_pose) example_pose)
                  = Inl undefined_content_error"
    by (simp add: image_run_exhausted(1) evasive_image attempt)
  have ans: "truthy (DD_API_KEY (example_env no_variables accepting evasive_remote)) \<longrightarrow>
               (\<forall>request. header_DD_API_KEY request = the (DD_API_KEY (example_env no_variables accepting evasive_remote)) \<longrightarrow>
                  answered (https_request (example_env no_variables accepting evasive_remote) request))"
    by simp
  have "fst (generateWithPose (example_env no_variables accepting evasive_remote)
               ''key'' user_photo pose_photo) = Resolved (failure_result undefined_content_error)"
    by (rule generateWithPose_image_failed(1)[OF a i ans])
  then show ?thesis
    using attempt spec none differ
    by (simp add: failure_result_def undefined_content_error_def)
qed

section \<open>Claims about the delivery of telemetry\<close>

lemma key_ignores_https [simp]:
  "DD_API_KEY (env\<lparr>https_request := h\<rparr>) = DD_API_KEY env"
  by (simp add: DD_API_KEY_def)

text \<open>
  When every request that carries the API key of the environment is answered, by a
  response that ends or by an error of the request, the failures of delivery are swallowed as the specification says. \<open>sendMetric\<close> and
  \<open>sendLog\<close> resolve; with an API key each makes exactly one request, whatever its end (no
  retry); a request error or a status other than 202 for a metric, other than 200 and 202
  for a log, is written to the console; \<open>recordSuccess\<close> and \<open>recordError\<close> resolve after
  all three of their requests have been made; and the result of \<open>generateWithPose\<close> is the
  same with any other behaviour \<open>h\<close> of HTTPS that answers every request with that key.
\<close>

lemma answered_requests_are_swallowed:
  assumes "truthy (DD_API_KEY env) \<longrightarrow>
             (\<forall>request. header_DD_API_KEY request = the (DD_API_KEY env) \<longrightarrow>
                answered (https_request env request))"
    and "in_flight w = []"
  shows "fst (sendMetric env n v ts ty w) = Resolved () \<and>
   fst (sendLog env msg lvl ad w) = Resolved () \<and>
   http_requests (events (snd (sendMetric env n v ts ty w))) =
     http_requests (events w) @
     (if truthy (DD_API_KEY env) then [metric_request env n v ts ty (clock env (ticks w))] else []) \<and>
   http_requests (events (snd (sendLog env msg lvl ad w))) =
     http_requests (events w) @
     (if truthy (DD_API_KEY env) then [log_request env msg lvl ad] else []) \<and>
   (truthy (DD_API_KEY env) \<and>
    https_request env (metric_request env n v ts ty (clock env (ticks w))) = Response s b \<and>
    s \<noteq> 202 \<longrightarrow>
      console_lines (events (snd (sendMetric env n v ts ty w))) =
        console_lines (events w) @ [''[Datadog API] Error: '' @ number_string s @ '' - '' @ b]) \<and>
   (truthy (DD_API_KEY env) \<and>
    https_request env (metric_request env n v ts ty (clock env (ticks w))) = RequestError e \<longrightarrow>
      console_lines (events (snd (sendMetric env n v ts ty w))) =
        console_lines (events w) @ [''[Datadog API] Request error: '' @ e]) \<and>
   (truthy (DD_API_KEY env) \<and>
    https_request env (log_request env msg lvl ad) = Response s b \<and> s \<noteq> 200 \<and> s \<noteq> 202 \<longrightarrow>
      console_lines (events (snd (sendLog env msg lvl ad w))) =
        console_lines (events w) @ [''[Datadog API] Log error: '' @ number_string s @ '' - '' @ b]) \<and>
   (truthy (DD_API_KEY env) \<and>
    https_request env (log_request env msg lvl ad) = RequestError e \<longrightarrow>
      console_lines (events (snd (sendLog env msg lvl ad w))) =
        console_lines (events w) @ [''[Datadog API] Log request error: '' @ e]) \<and>
   fst (recordSuccess env m w) = Resolved () \<and>
   length (http_requests (events (snd (recordSuccess env m w)))) =
     length (http_requests (events w)) + (if truthy (DD_API_KEY env) then 3 else 0) \<and>
   fst (recordError env m errorMessage w) = Resolved () \<and>
   length (http_requests (events (snd (recordError env m errorMessage w)))) =
     length (http_requests (events w)) + (if truthy (DD_API_KEY env) then 3 else 0) \<and>
   ((\<forall>request. header_DD_API_KEY request = the (DD_API_KEY env) \<longrightarrow> answered (h request)) \<longrightarrow>
      fst (generateWithPose (env\<lparr>https_request := h\<rparr>) apiKey userImage poseImage) =
        fst (generateWithPose env apiKey userImage poseImage))"
proof -
  have metric_refused:
    "truthy (DD_API_KEY env) \<and>
     https_request env (metric_request env n v ts ty (clock env (ticks w))) = Response s b \<and>
     s \<noteq> 202 \<longrightarrow>
       console_lines (events (snd (sendMetric env n v ts ty w))) =
         console_lines (events w) @ [''[Datadog API] Error: '' @ number_string s @ '' - '' @ b]"
    using assms(2) by (simp add: sendMetric_console(1))
  have metric_error:
    "truthy (DD_API_KEY env) \<and>
     https_request env (metric_request env n v ts ty (clock env (ticks w))) = RequestError e \<longrightarrow>
       console_lines (events (snd (sendMetric env n v ts ty w))) =
         console_lines (events w) @ [''[Datadog API] Request error: '' @ e]"
    using assms(2) by (simp add: sendMetric_console(2))
  have log_refused:
    "truthy (DD_API_KEY env) \<and>
     https_request env (log_request env msg lvl ad) = Response s b \<and> s \<noteq> 200 \<and> s \<noteq> 202 \<longrightarrow>
       console_lines (events (snd (sendLog env msg lvl ad w))) =
         console_lines (events w) @ [''[Datadog API] Log error: '' @ number_string s @ '' - '' @ b]"
    using assms(2) by (simp add: sendLog_console(1))
  have log_error:
    "truthy (DD_API_KEY env) \<and>
     https_request env (log_request env msg lvl ad) = RequestError e \<longrightarrow>
       console_lines (events (snd (sendLog env msg lvl ad w))) =
         console_lines (events w) @ [''[Datadog API] Log request error: '' @ e]"
    using assms(2) by (simp add: sendLog_console(2))
  have same_result:
    "(\<forall>request. header_DD_API_KEY request = the (DD_API_KEY env) \<longrightarrow> answered (h request)) \<longrightarrow>
       fst (generateWithPose (env\<lparr>https_request := h\<rparr>) apiKey userImage poseImage) =
         fst (generateWithPose env apiKey userImage poseImage)"
  proof
    assume "\<forall>request. header_DD_API_KEY request = the (DD_API_KEY env) \<longrightarrow> answered (h request)"
    then have h: "truthy (DD_API_KEY (env\<lparr>https_request := h\<rparr>)) \<longrightarrow>
                    (\<forall>request. header_DD_API_KEY request =
                                 the (DD_API_KEY (env\<lparr>https_request := h\<rparr>)) \<longrightarrow>
                       answered (https_request (env\<lparr>https_request := h\<rparr>) request))"
      by simp
    show "fst (generateWithPose (env\<lparr>https_request := h\<rparr>) apiKey userImage poseImage) =
            fst (generateWithPose env apiKey userImage poseImage)"
      by (simp add: generateWithPose_result[OF h] generateWithPose_result[OF assms(1)]
            cong: sum.case_cong prod.case_cong)
  qed
  show ?thesis
    using metric_refused metric_error log_refused log_error same_result
    by (simp only: sendMetric_delivered[OF assms(1)] sendLog_delivered[OF assms(1)]
          recordSuccess_delivered[OF assms(1)] recordError_delivered[OF assms(1)]
          length_append list.size if_distrib[of length] simp_thms)
       simp
qed

text \<open>
  Claim C5, at the inputs where the code departs from it. In the first environment the API
  key ends with a line feed. \<open>https.request\<close> throws on such a header value, inside the
  executor of the promise that \<open>sendMetric\<close> and \<open>sendLog\<close> return, so the promise rejects:
  the failure is raised to the caller and nothing is written to the console, where the
  claim has it logged and swallowed. \<open>recordError\<close> rejects with it, and so does
  \<open>generateWithPose\<close>, which returns a result when the key is a good one. In the second
  environment the connection is lost in the middle of every response: neither handler
  runs, nothing is written to the console, and the promise never settles, so that
  \<open>generateWithPose\<close> never returns.
\<close>

theorem sends_reject_when_request_throws:
  "strict_headers (metric_request (example_env with_bad_key strict_headers silent_remote)
                     ''poseshift.llm.error.count'' 1 [] Count 1700000000000) =
     Throws invalid_header_error \<and>
   fst (sendMetric (example_env with_bad_key strict_headers silent_remote)
          ''poseshift.llm.error.count'' 1 [] Count initial_world) = Rejected invalid_header_error \<and>
   console_lines (events (snd (sendMetric (example_env with_bad_key strict_headers silent_remote)
                                 ''poseshift.llm.error.count'' 1 [] Count initial_world))) = [] \<and>
   fst (sendLog (example_env with_bad_key strict_headers silent_remote)
          ''LLM generation failed'' Failure [] initial_world) = Rejected invalid_header_error \<and>
   console_lines (events (snd (sendLog (example_env with_bad_key strict_headers silent_remote)
                                 ''LLM generation failed'' Failure [] initial_world))) = [] \<and>
   fst (recordError (example_env with_bad_key strict_headers silent_remote)
          (the_metrics (example_env with_bad_key strict_headers silent_remote)) ''failed''
          initial_world) = Rejected invalid_header_error \<and>
   fst (generateWithPose (example_env with_bad_key strict_headers silent_remote)
          ''key'' user_photo pose_photo) = Rejected invalid_header_error \<and>
   fst (generateWithPose (example_env with_api_key strict_headers silent_remote)
          ''key'' user_photo pose_photo) = Resolved (failure_result empty_description_error) \<and>
   fst (sendMetric (example_env with_api_key cut_off silent_remote)
          ''poseshift.llm.error.count'' 1 [] Count initial_world) = Pending \<and>
   console_lines (events (snd (sendMetric (example_env with_api_key cut_off silent_remote)
                                 ''poseshift.llm.error.count'' 1 [] Count initial_world))) = [] \<and>
   fst (sendLog (example_env with_api_key cut_off silent_remote)
          ''LLM generation failed'' Failure [] initial_world) = Pending \<and>
   fst (generateWithPose (example_env with_api_key cut_off silent_remote)
          ''key'' user_photo pose_photo) = Pending"
proof -
  have thrown_metric:
    "https_request (example_env with_bad_key strict_headers silent_remote)
       (metric_request (example_env with_bad_key strict_headers silent_remote)
          ''poseshift.llm.error.count'' 1 [] Count
          (clock (example_env with_bad_key strict_headers silent_remote) (ticks initial_world))) =
     Throws invalid_header_error"
    by (simp add: strict_headers_def)
  have thrown_log:
    "https_request (example_env with_bad_key strict_headers silent_remote)
       (log_request (example_env with_bad_key strict_headers silent_remote)
          ''LLM generation failed'' Failure []) = Throws invalid_header_error"
    by (simp add: strict_headers_def)
  have cut: "\<forall>request. https_request (example_env with_api_key cut_off silent_remote) request =
               Truncated"
    by (simp add: cut_off_def)
  have ans: "truthy (DD_API_KEY (example_env with_api_key strict_headers silent_remote)) \<longrightarrow>
               (\<forall>request. header_DD_API_KEY request = the (DD_API_KEY (example_env with_api_key strict_headers silent_remote)) \<longrightarrow>
                  answered (https_request (example_env with_api_key strict_headers silent_remote) request))"
    by (simp add: strict_headers_def)
  have m1: "sendMetric (example_env with_bad_key strict_headers silent_remote)
              ''poseshift.llm.error.count'' 1 [] Count initial_world =
            (Rejected invalid_header_error,
             snd (Date_now (example_env with_bad_key strict_headers silent_remote)
                    (emit [SendMetric ''poseshift.llm.error.count'' 1 [] Count] initial_world)))"
    by (rule sendMetric_console(4)[OF example_keys(3) initial_world_fields(4) thrown_metric])
  have l1: "sendLog (example_env with_bad_key strict_headers silent_remote)
              ''LLM generation failed'' Failure [] initial_world =
            (Rejected invalid_header_error, emit [SendLog ''LLM generation failed'' Failure []]
                                              initial_world)"
    by (rule sendLog_console(4)[OF example_keys(3) initial_world_fields(4) thrown_log])
  have m2: "sendMetric (example_env with_api_key cut_off silent_remote)
              ''poseshift.llm.error.count'' 1 [] Count initial_world =
            (Pending,
             emit [HttpRequest (metric_request (example_env with_api_key cut_off silent_remote)
                     ''poseshift.llm.error.count'' 1 [] Count
                     (clock (example_env with_api_key cut_off silent_remote)
                        (ticks initial_world)))]
               (snd (Date_now (example_env with_api_key cut_off silent_remote)
                       (emit [SendMetric ''poseshift.llm.error.count'' 1 [] Count]
                          initial_world))))"
    by (rule sendMetric_console(3)[OF example_keys(2) initial_world_fields(4)])
       (simp add: cut_off_def)
  have l2: "sendLog (example_env with_api_key cut_off silent_remote)
              ''LLM generation failed'' Failure [] initial_world =
            (Pending,
             emit [HttpRequest (log_request (example_env with_api_key cut_off silent_remote)
                     ''LLM generation failed'' Failure [])]
               (emit [SendLog ''LLM generation failed'' Failure []] initial_world))"
    by (rule sendLog_console(3)[OF example_keys(2) initial_world_fields(4)])
       (simp add: cut_off_def)
  have r: "fst (recordError (example_env with_bad_key strict_headers silent_remote)
                  (the_metrics (example_env with_bad_key strict_headers silent_remote)) ''failed''
                  initial_world) = Rejected invalid_header_error"
    by (rule recordError_refused(1)[OF example_keys(3) strict_headers_refuse_bad_key])
  have g1: "fst (generateWithPose (example_env with_bad_key strict_headers silent_remote)
                   ''key'' user_photo pose_photo) = Rejected invalid_header_error"
    by (rule generateWithPose_analysis_failed_refused(1)[OF silent_steps(1) example_keys(3)
          strict_headers_refuse_bad_key])
  have g2: "fst (generateWithPose (example_env with_api_key strict_headers silent_remote)
                   ''key'' user_photo pose_photo) = Resolved (failure_result empty_description_error)"
    by (rule generateWithPose_analysis_failed(1)[OF silent_steps(1) ans])
  have g3: "fst (generateWithPose (example_env with_api_key cut_off silent_remote)
                   ''key'' user_photo pose_photo) = Pending"
    by (rule generateWithPose_analysis_failed_truncated(1)[OF silent_steps(1) example_keys(2) cut])
  have t: "strict_headers (metric_request (example_env with_bad_key strict_headers silent_remote)
                     ''poseshift.llm.error.count'' 1 [] Count 1700000000000) =
           Throws invalid_header_error"
    by (simp add: strict_headers_def)
  show ?thesis
    unfolding m1 l1 m2 l2 r g1 g2 g3 t
    by simp
qed

text \<open>
  Claim C10. When the environment has no \<open>DD_API_KEY\<close> (or an empty one), \<open>sendMetric\<close> and
  \<open>sendLog\<close> resolve right after the console line that says they skip, and issue no request;
  so \<open>recordSuccess\<close> and \<open>recordError\<close> resolve without a single request.
\<close>

theorem without_key_nothing_is_sent:
  assumes "\<not> truthy (DD_API_KEY env)"
  shows "fst (sendMetric env n v ts ty w) = Resolved () \<and>
         events (snd (sendMetric env n v ts ty w)) =
           events w @ [SendMetric n v ts ty,
                       Console Log ''[Datadog API] No API key, skipping metric'' None] \<and>
         fst (sendLog env msg lvl ad w) = Resolved () \<and>
         events (snd (sendLog env msg lvl ad w)) =
           events w @ [SendLog msg lvl ad,
                       Console Log ''[Datadog API] No API key, skipping log'' None] \<and>
         fst (recordSuccess env m w) = Resolved () \<and>
         http_requests (events (snd (recordSuccess env m w))) = http_requests (events w) \<and>
         fst (recordError env m errorMessage w) = Resolved () \<and>
         http_requests (events (snd (recordError env m errorMessage w))) = http_requests (events w)"
proof -
  have ans: "truthy (DD_API_KEY env) \<longrightarrow>
             (\<forall>request. header_DD_API_KEY request = the (DD_API_KEY env) \<longrightarrow>
                answered (https_request env request))"
    using assms by simp
  show ?thesis
    using assms
    by (simp add: sendMetric_without_key sendLog_without_key recordSuccess_delivered[OF ans]
          recordError_delivered[OF ans])
qed

theorem without_key_nothing_is_sent_witness:
  "\<not> truthy (DD_API_KEY (example_env no_variables accepting helpful_remote)) \<and>
   events (snd (sendMetric (example_env no_variables accepting helpful_remote)
                  ''poseshift.llm.request.count'' 1 [''status:success''] Count initial_world)) =
     [SendMetric ''poseshift.llm.request.count'' 1 [''status:success''] Count,
      Console Log ''[Datadog API] No API key, skipping metric'' None] \<and>
   fst (recordSuccess (example_env no_variables accepting helpful_remote)
          (the_metrics (example_env no_variables accepting helpful_remote)) initial_world) =
     Resolved () \<and>
   http_requests (events (snd (recordSuccess (example_env no_variables accepting helpful_remote)
          (the_metrics (example_env no_variables accepting helpful_remote)) initial_world))) = []"
  using without_key_nothing_is_sent[of "example_env no_variables accepting helpful_remote"
      "''poseshift.llm.request.count''" 1 "[''status:success'']" Count initial_world _ _ _
      "the_metrics (example_env no_variables accepting helpful_remote)"]
  by simp

end
